theory Spec2Isabelle
  imports Complex_Main
begin

section \<open>Data model of \<open>service/main.go\<close>\<close>

text \<open>
  A Go \<open>float64\<close>: a finite value, an infinity or NaN. The handlers never compute with
  coordinates, they only pass them on, so a finite value is kept as the real number it
  denotes.
\<close>

datatype float64 = Finite real | PosInf | NegInf | NaN

text \<open>The order \<open>\<le>\<close> of IEEE 754: every comparison with NaN is false.\<close>

fun f64_le :: "float64 \<Rightarrow> float64 \<Rightarrow> bool" where
  "f64_le NaN _ = False"
| "f64_le _ NaN = False"
| "f64_le NegInf _ = True"
| "f64_le _ PosInf = True"
| "f64_le (Finite x) (Finite y) = (x \<le> y)"
| "f64_le (Finite x) NegInf = False"
| "f64_le PosInf (Finite y) = False"
| "f64_le PosInf NegInf = False"

fun is_finite :: "float64 \<Rightarrow> bool" where
  "is_finite (Finite x) = True"
| "is_finite _ = False"

type_synonym error = string
type_synonym bytes = string

record Location =
  Lat :: float64
  Lon :: float64

record Post =
  User :: string
  Message :: string
  Location :: Location
  Url :: string

text \<open>The constants of the \<open>const\<close> block (lines 23 to 31).\<close>

definition DISTANCE :: string where
  "DISTANCE = ''200km''"

definition POST_INDEX :: string where
  "POST_INDEX = ''post''"

definition POST_TYPE :: string where
  "POST_TYPE = ''post''"

definition BUCKET_NAME :: string where
  "BUCKET_NAME = ''zhida-post-around-image''"

definition StatusOK :: nat where
  "StatusOK = 200"

definition StatusBadRequest :: nat where
  "StatusBadRequest = 400"

definition StatusInternalServerError :: nat where
  "StatusInternalServerError = 500"

section \<open>The backends as explicit state\<close>

text \<open>
  Every request that a handler sends to a backend is a \<open>call\<close>. The state keeps the calls
  in the order they were issued, next to the contents of the three stores.
\<close>

type_synonym mutation = "(string \<times> string \<times> string) list"

datatype call =
    GcsNewClient
  | GcsBucketAttrs string
  | GcsCopy string string bytes
  | GcsClose string string
  | GcsACLSet string string
  | GcsObjectAttrs string string
  | EsNewClient
  | EsIndex string string string Post
  | EsSearch string float64 float64 string
  | BtNewClient
  | BtApply string string mutation

record GcsObject =
  content :: bytes
  public :: bool

record ObjectAttrs =
  Bucket :: string
  Name :: string
  MediaLink :: string

record state =
  gcs_buckets :: "string set"
  gcs_objects :: "string \<times> string \<rightharpoonup> GcsObject"
  es_docs :: "string \<rightharpoonup> Post"
  bt_rows :: "string \<rightharpoonup> mutation"
  trace :: "call list"

text \<open>
  A search hit as \<open>SearchResult.Each\<close> sees it: a hit without \<open>_source\<close>, a hit whose source
  unmarshals into a \<open>Post\<close>, or a hit whose source does not. \<open>Each\<close> returns
  \<open>[]interface{}\<close>; an \<open>item\<close> is such a value.
\<close>

datatype hit = NoSource | Decodable Post | Undecodable

datatype item = PostVal Post | OtherVal

text \<open>
  What the handlers take from outside \<open>main.go\<close>:
  \<^item> \<open>hasFilteredWord\<close> is defined in another file of the repository; the specification
    (section 4.1) makes it a pure predicate on the message text;
  \<^item> \<open>ParseFloat\<close>, \<open>FormatFloat\<close> and \<open>json_Marshal\<close> are the Go library functions
    \<open>strconv.ParseFloat(_, 64)\<close>, \<open>strconv.FormatFloat(_, 'f', -1, 64)\<close> and
    \<open>json.Marshal\<close>;
  \<^item> \<open>uuid_New\<close> is the identifier that \<open>uuid.New()\<close> returns to this request;
  \<^item> \<open>fault\<close> says which backend calls fail, and with which error;
  \<^item> \<open>media_link\<close> is the \<open>MediaLink\<close> the asset store assigns to an object;
  \<^item> \<open>search_hits\<close> is the index store's answer to a geo-distance query;
  \<^item> \<open>ENABLE_BIGTABLE\<close> is the constant of line 30, \<open>false\<close> in the source; it is a
    field so that the branch of line 119 can be examined for both values.
\<close>

record env =
  hasFilteredWord :: "string \<Rightarrow> bool"
  ParseFloat :: "string \<Rightarrow> float64 \<times> error option"
  FormatFloat :: "float64 \<Rightarrow> string"
  json_Marshal :: "Post list \<Rightarrow> error + string"
  uuid_New :: string
  fault :: "call \<Rightarrow> error option"
  media_link :: "string \<Rightarrow> string \<Rightarrow> string"
  search_hits :: "float64 \<Rightarrow> float64 \<Rightarrow> string \<Rightarrow> hit list"
  ENABLE_BIGTABLE :: bool

text \<open>Issuing a call records it and asks the environment whether it fails.\<close>

definition issue :: "env \<Rightarrow> call \<Rightarrow> state \<Rightarrow> error option \<times> state" where
  "issue e c st = (fault e c, st\<lparr>trace := trace st @ [c]\<rparr>)"

definition new_calls :: "state \<Rightarrow> state \<Rightarrow> call list" where
  "new_calls st st' = drop (length (trace st)) (trace st')"

definition ErrBucketNotExist :: error where
  "ErrBucketNotExist = ''storage: bucket doesn't exist''"

definition ErrObjectNotExist :: error where
  "ErrObjectNotExist = ''storage: object doesn't exist''"

subsection \<open>The asset store (Google Cloud Storage)\<close>

definition storage_NewClient :: "env \<Rightarrow> state \<Rightarrow> error option \<times> state" where
  "storage_NewClient e st = issue e GcsNewClient st"

text \<open>\<open>bucket.Attrs\<close> fails for a bucket that does not exist, and creates nothing.\<close>

definition bucket_Attrs :: "env \<Rightarrow> string \<Rightarrow> state \<Rightarrow> error option \<times> state" where
  "bucket_Attrs e b st =
     (case issue e (GcsBucketAttrs b) st of
        (Some err, st1) \<Rightarrow> (Some err, st1)
      | (None, st1) \<Rightarrow>
          (if b \<in> gcs_buckets st1 then None else Some ErrBucketNotExist, st1))"

text \<open>
  \<open>io.Copy(wc, r)\<close> streams the bytes to the writer; the object exists in the bucket only
  once \<open>wc.Close()\<close> has succeeded, with the default (private) access policy.
\<close>

definition io_Copy :: "env \<Rightarrow> string \<Rightarrow> string \<Rightarrow> bytes \<Rightarrow> state \<Rightarrow> error option \<times> state" where
  "io_Copy e b obj r st = issue e (GcsCopy b obj r) st"

definition wc_Close :: "env \<Rightarrow> string \<Rightarrow> string \<Rightarrow> bytes \<Rightarrow> state \<Rightarrow> error option \<times> state" where
  "wc_Close e b obj r st =
     (case issue e (GcsClose b obj) st of
        (Some err, st1) \<Rightarrow> (Some err, st1)
      | (None, st1) \<Rightarrow>
          (if b \<in> gcs_buckets st1
           then (None, st1\<lparr>gcs_objects :=
                   (gcs_objects st1)((b, obj) \<mapsto> \<lparr>content = r, public = False\<rparr>)\<rparr>)
           else (Some ErrBucketNotExist, st1)))"

text \<open>\<open>object.ACL().Set(ctx, storage.AllUsers, storage.RoleReader)\<close>.\<close>

definition ACL_Set :: "env \<Rightarrow> string \<Rightarrow> string \<Rightarrow> state \<Rightarrow> error option \<times> state" where
  "ACL_Set e b obj st =
     (case issue e (GcsACLSet b obj) st of
        (Some err, st1) \<Rightarrow> (Some err, st1)
      | (None, st1) \<Rightarrow>
          (case gcs_objects st1 (b, obj) of
             None \<Rightarrow> (Some ErrObjectNotExist, st1)
           | Some ob \<Rightarrow>
               (None, st1\<lparr>gcs_objects :=
                  (gcs_objects st1)((b, obj) \<mapsto> ob\<lparr>public := True\<rparr>)\<rparr>)))"

definition object_Attrs :: "env \<Rightarrow> string \<Rightarrow> string \<Rightarrow> state \<Rightarrow> (error + ObjectAttrs) \<times> state" where
  "object_Attrs e b obj st =
     (case issue e (GcsObjectAttrs b obj) st of
        (Some err, st1) \<Rightarrow> (Inl err, st1)
      | (None, st1) \<Rightarrow>
          (case gcs_objects st1 (b, obj) of
             None \<Rightarrow> (Inl ErrObjectNotExist, st1)
           | Some ob \<Rightarrow>
               (Inr \<lparr>Bucket = b, Name = obj, MediaLink = media_link e b obj\<rparr>, st1)))"

text \<open>\<open>saveToGCS\<close>, lines 272 to 306: every \<open>if err != nil\<close> returns at once.\<close>

definition saveToGCS :: "env \<Rightarrow> bytes \<Rightarrow> string \<Rightarrow> string \<Rightarrow> state \<Rightarrow> (error + ObjectAttrs) \<times> state" where
  "saveToGCS e r bucketName objectName st =
     (case storage_NewClient e st of
        (Some err, st1) \<Rightarrow> (Inl err, st1)
      | (None, st1) \<Rightarrow>
     (case bucket_Attrs e bucketName st1 of
        (Some err, st2) \<Rightarrow> (Inl err, st2)
      | (None, st2) \<Rightarrow>
     (case io_Copy e bucketName objectName r st2 of
        (Some err, st3) \<Rightarrow> (Inl err, st3)
      | (None, st3) \<Rightarrow>
     (case wc_Close e bucketName objectName r st3 of
        (Some err, st4) \<Rightarrow> (Inl err, st4)
      | (None, st4) \<Rightarrow>
     (case ACL_Set e bucketName objectName st4 of
        (Some err, st5) \<Rightarrow> (Inl err, st5)
      | (None, st5) \<Rightarrow>
     (case object_Attrs e bucketName objectName st5 of
        (Inl err, st6) \<Rightarrow> (Inl err, st6)
      | (Inr attrs, st6) \<Rightarrow> (Inr attrs, st6)))))))"

subsection \<open>The geo index store (ElasticSearch)\<close>

definition elastic_NewClient :: "env \<Rightarrow> state \<Rightarrow> error option \<times> state" where
  "elastic_NewClient e st = issue e EsNewClient st"

text \<open>
  The body of an index request is the post encoded by \<open>encoding/json\<close>. A NaN or an
  infinite \<open>float64\<close> has no JSON encoding: the encoder returns an unsupported-value
  error. Strings always encode.
\<close>

definition json_encodable :: "Post \<Rightarrow> bool" where
  "json_encodable p = (is_finite (Lat (Location p)) \<and> is_finite (Lon (Location p)))"

definition ErrUnsupportedValue :: error where
  "ErrUnsupportedValue = ''json: unsupported value''"

text \<open>
  \<open>saveToES\<close>, lines 209 to 229: the document is stored under the given id.
  \<open>Do\<close> encodes the body before it sends the request, so for a post that does not
  encode it returns the encoder's error and no request reaches the index.
\<close>

definition saveToES :: "env \<Rightarrow> Post \<Rightarrow> string \<Rightarrow> state \<Rightarrow> error option \<times> state" where
  "saveToES e post ident st =
     (case elastic_NewClient e st of
        (Some err, st1) \<Rightarrow> (Some err, st1)
      | (None, st1) \<Rightarrow>
     (if \<not> json_encodable post then (Some ErrUnsupportedValue, st1)
      else
     (case issue e (EsIndex POST_INDEX POST_TYPE ident post) st1 of
        (Some err, st2) \<Rightarrow> (Some err, st2)
      | (None, st2) \<Rightarrow>
          (None, st2\<lparr>es_docs := (es_docs st2)(ident \<mapsto> post)\<rparr>))))"

text \<open>
  \<open>SearchResult.Each\<close> of the elastic client: a hit without source gives the zero value,
  a hit whose source fails to unmarshal is left out ("it ignores errors in
  serialization", lines 253 to 256).
\<close>

definition zero_Post :: Post where
  "zero_Post = \<lparr>User = '''', Message = '''',
                 Location = \<lparr>Lat = Finite 0, Lon = Finite 0\<rparr>, Url = ''''\<rparr>"

fun Each :: "hit list \<Rightarrow> item list" where
  "Each [] = []"
| "Each (NoSource # hs) = PostVal zero_Post # Each hs"
| "Each (Decodable p # hs) = PostVal p # Each hs"
| "Each (Undecodable # hs) = Each hs"

text \<open>The loop of lines 259 to 267, with \<open>posts\<close> as the accumulator.\<close>

fun collect :: "env \<Rightarrow> item list \<Rightarrow> Post list \<Rightarrow> Post list" where
  "collect e [] posts = posts"
| "collect e (PostVal p # items) posts =
     (if \<not> hasFilteredWord e (Message p) then collect e items (posts @ [p])
      else collect e items posts)"
| "collect e (OtherVal # items) posts = collect e items posts"

text \<open>
  \<open>readFromES\<close>, lines 231 to 270 (\<open>rang\<close> is its parameter \<open>ran\<close>). The nil slice is the
  empty list. Every error that \<open>Do\<close> returns for the search, also one raised while the
  query is encoded, is the fault of the search call.
\<close>

definition readFromES :: "env \<Rightarrow> float64 \<Rightarrow> float64 \<Rightarrow> string \<Rightarrow> state \<Rightarrow> (error + Post list) \<times> state" where
  "readFromES e lat lon rang st =
     (case elastic_NewClient e st of
        (Some err, st1) \<Rightarrow> (Inl err, st1)
      | (None, st1) \<Rightarrow>
     (case issue e (EsSearch POST_INDEX lat lon rang) st1 of
        (Some err, st2) \<Rightarrow> (Inl err, st2)
      | (None, st2) \<Rightarrow>
          (Inr (collect e (Each (search_hits e lat lon rang)) []), st2)))"

subsection \<open>The secondary store (BigTable)\<close>

text \<open>
  \<open>saveToBigTable\<close>, lines 308 to 335. It has no error result: both failures are
  \<open>panic(err)\<close>. The result \<open>Some err\<close> is that panic.
\<close>

definition saveToBigTable :: "env \<Rightarrow> Post \<Rightarrow> string \<Rightarrow> state \<Rightarrow> error option \<times> state" where
  "saveToBigTable e p ident st =
     (case issue e BtNewClient st of
        (Some err, st1) \<Rightarrow> (Some err, st1)
      | (None, st1) \<Rightarrow>
     (let mut = [(''post'', ''user'', User p),
                 (''post'', ''message'', Message p),
                 (''location'', ''lat'', FormatFloat e (Lat (Location p))),
                 (''location'', ''lon'', FormatFloat e (Lon (Location p)))]
      in case issue e (BtApply ''post'' ident mut) st1 of
           (Some err, st2) \<Rightarrow> (Some err, st2)
         | (None, st2) \<Rightarrow> (None, st2\<lparr>bt_rows := (bt_rows st2)(ident \<mapsto> mut)\<rparr>)))"

section \<open>The HTTP handlers\<close>

text \<open>
  A request carries the URL query, the fields of a URL-encoded body (\<open>post_form\<close>), the
  fields of a \<open>multipart/form-data\<close> body (\<open>multipart_form\<close>) and the multipart files.
  \<open>FormValue\<close> gives the first value of a field, looking in the URL-encoded body, then in
  the query, then in the multipart fields, as \<open>net/http\<close> fills \<open>r.Form\<close>; it gives the
  empty string for a missing field. \<open>Query_Get\<close> is \<open>r.URL.Query().Get\<close>.
\<close>

record Request =
  query :: "(string \<times> string) list"
  post_form :: "(string \<times> string) list"
  multipart_form :: "(string \<times> string) list"
  files :: "(string \<times> bytes) list"

definition FormValue :: "Request \<Rightarrow> string \<Rightarrow> string" where
  "FormValue r k =
     (case map_of (post_form r @ query r @ multipart_form r) k of
        None \<Rightarrow> '''' | Some v \<Rightarrow> v)"

definition Query_Get :: "Request \<Rightarrow> string \<Rightarrow> string" where
  "Query_Get r k = (case map_of (query r) k of None \<Rightarrow> '''' | Some v \<Rightarrow> v)"

definition FormFile :: "Request \<Rightarrow> string \<Rightarrow> bytes option" where
  "FormFile r k = map_of (files r) k"

text \<open>
  What the caller of a handler sees: a response (status and body), or the panic that
  left the handler. \<open>http.Error\<close> writes the message and a newline. A handler that
  writes nothing answers 200 with an empty body. The response headers and the lines
  printed to the console are left out: no statement below is about them.
\<close>

datatype outcome = Response nat string | Panic error

definition http_Error :: "string \<Rightarrow> nat \<Rightarrow> outcome" where
  "http_Error msg code = Response code (msg @ [CHR 0x0A])"

text \<open>\<open>handlePost\<close>, lines 68 to 123.\<close>

definition handlePost :: "env \<Rightarrow> Request \<Rightarrow> state \<Rightarrow> outcome \<times> state" where
  "handlePost e r st =
     (let lat = fst (ParseFloat e (FormValue r ''lat''));
          lon = fst (ParseFloat e (FormValue r ''lon''));
          message = FormValue r ''message''
      in if hasFilteredWord e message
         then (http_Error ''Sorry, the post contains filtered words. Please edit again. ''
                 StatusBadRequest, st)
         else
           (let p = \<lparr>User = FormValue r ''user'', Message = FormValue r ''message'',
                     Location = \<lparr>Lat = lat, Lon = lon\<rparr>, Url = ''''\<rparr>;
                ident = uuid_New e
            in case FormFile r ''image'' of
                 None \<Rightarrow> (http_Error ''Image is not available'' StatusBadRequest, st)
               | Some file \<Rightarrow>
                   (case saveToGCS e file BUCKET_NAME ident st of
                      (Inl err, st1) \<Rightarrow>
                        (http_Error ''Failed to save image to GCS'' StatusInternalServerError, st1)
                    | (Inr attrs, st1) \<Rightarrow>
                        (let p' = p\<lparr>Url := MediaLink attrs\<rparr>
                         in case saveToES e p' ident st1 of
                              (Some err, st2) \<Rightarrow>
                                (http_Error ''Failed to save post to ElasticSearch''
                                   StatusInternalServerError, st2)
                            | (None, st2) \<Rightarrow>
                                (if ENABLE_BIGTABLE e
                                 then (case saveToBigTable e p' ident st2 of
                                         (Some err, st3) \<Rightarrow> (Panic err, st3)
                                       | (None, st3) \<Rightarrow> (Response StatusOK '''', st3))
                                 else (Response StatusOK '''', st2))))))"

text \<open>\<open>handleSearch\<close>, lines 125 to 156.\<close>

definition handleSearch :: "env \<Rightarrow> Request \<Rightarrow> state \<Rightarrow> outcome \<times> state" where
  "handleSearch e r st =
     (let lat = fst (ParseFloat e (Query_Get r ''lat''));
          lon = fst (ParseFloat e (Query_Get r ''lon''));
          val = Query_Get r ''range'';
          rang = (if val \<noteq> '''' then val @ ''km'' else DISTANCE)
      in case readFromES e lat lon rang st of
           (Inl err, st1) \<Rightarrow>
             (http_Error ''Failed to read post from ElasticSearch'' StatusInternalServerError, st1)
         | (Inr posts, st1) \<Rightarrow>
             (case json_Marshal e posts of
                Inl err \<Rightarrow>
                  (http_Error ''Failed to parse posts into JSON format''
                     StatusInternalServerError, st1)
              | Inr js \<Rightarrow> (Response StatusOK js, st1)))"

section \<open>Vocabulary for the statements\<close>

text \<open>
  The calls of a complete run of \<open>saveToGCS\<close>, of \<open>saveToES\<close> and of \<open>saveToBigTable\<close>,
  in the order of the source, and the state that the first \<open>n\<close> calls of \<open>saveToGCS\<close>
  leave behind: nothing is stored before the fourth call (\<open>Close\<close>) has succeeded, and
  the object is private until the fifth (\<open>ACL().Set\<close>) has.
\<close>

definition gcs_stages :: "string \<Rightarrow> string \<Rightarrow> bytes \<Rightarrow> call list" where
  "gcs_stages b obj r =
     [GcsNewClient, GcsBucketAttrs b, GcsCopy b obj r, GcsClose b obj, GcsACLSet b obj,
      GcsObjectAttrs b obj]"

definition es_stages :: "string \<Rightarrow> Post \<Rightarrow> call list" where
  "es_stages ident p = [EsNewClient, EsIndex POST_INDEX POST_TYPE ident p]"

definition bt_mutation :: "env \<Rightarrow> Post \<Rightarrow> mutation" where
  "bt_mutation e p =
     [(''post'', ''user'', User p),
      (''post'', ''message'', Message p),
      (''location'', ''lat'', FormatFloat e (Lat (Location p))),
      (''location'', ''lon'', FormatFloat e (Lon (Location p)))]"

definition bt_stages :: "env \<Rightarrow> string \<Rightarrow> Post \<Rightarrow> call list" where
  "bt_stages e ident p = [BtNewClient, BtApply ''post'' ident (bt_mutation e p)]"

definition gcs_after :: "state \<Rightarrow> nat \<Rightarrow> string \<Rightarrow> string \<Rightarrow> bytes \<Rightarrow> state" where
  "gcs_after st n b obj r =
     st\<lparr>gcs_objects :=
          (if n \<le> 4 then gcs_objects st
           else (gcs_objects st)((b, obj) \<mapsto> \<lparr>content = r, public = (n = 6)\<rparr>)),
        trace := trace st @ take n (gcs_stages b obj r)\<rparr>"

fun is_es_call :: "call \<Rightarrow> bool" where
  "is_es_call EsNewClient = True"
| "is_es_call (EsIndex _ _ _ _) = True"
| "is_es_call (EsSearch _ _ _ _) = True"
| "is_es_call _ = False"

fun is_bt_call :: "call \<Rightarrow> bool" where
  "is_bt_call BtNewClient = True"
| "is_bt_call (BtApply _ _ _) = True"
| "is_bt_call _ = False"

text \<open>
  The post that \<open>handlePost\<close> hands to \<open>saveToES\<close> on line 111: the form fields, the parsed
  coordinates, and the media link of the object named by the generated identifier.
\<close>

definition indexed_post :: "env \<Rightarrow> Request \<Rightarrow> Post" where
  "indexed_post e r =
     \<lparr>User = FormValue r ''user'', Message = FormValue r ''message'',
      Location = \<lparr>Lat = fst (ParseFloat e (FormValue r ''lat'')),
                  Lon = fst (ParseFloat e (FormValue r ''lon''))\<rparr>,
      Url = media_link e BUCKET_NAME (uuid_New e)\<rparr>"

text \<open>
  The state once steps 1 to 6 of an ingestion have succeeded: the asset is stored and
  public, the post is indexed under the same identifier, and the eight calls are on
  the trace.
\<close>

definition post_stored :: "env \<Rightarrow> Request \<Rightarrow> bytes \<Rightarrow> state \<Rightarrow> state" where
  "post_stored e r file st =
     st\<lparr>gcs_objects :=
          (gcs_objects st)((BUCKET_NAME, uuid_New e) \<mapsto> \<lparr>content = file, public = True\<rparr>),
        es_docs := (es_docs st)(uuid_New e \<mapsto> indexed_post e r),
        trace := trace st @ gcs_stages BUCKET_NAME (uuid_New e) file @
                   es_stages (uuid_New e) (indexed_post e r)\<rparr>"

text \<open>The posts among the items of a search result, in order.\<close>

fun posts_of :: "item list \<Rightarrow> Post list" where
  "posts_of [] = []"
| "posts_of (PostVal p # items) = p # posts_of items"
| "posts_of (OtherVal # items) = posts_of items"

text \<open>
  The same world with a secondary store that never fails: for comparing a run in which
  the mirror write fails with the run in which it succeeds.
\<close>

definition mirror_ok :: "env \<Rightarrow> env" where
  "mirror_ok e = e\<lparr>fault := (\<lambda>c. if is_bt_call c then None else fault e c)\<rparr>"

section \<open>Concrete runs\<close>

text \<open>
  A small world to run the handlers in. \<open>table_ParseFloat\<close> lists the value of
  \<open>strconv.ParseFloat\<close> on the strings it is applied to below; each number is a
  \<open>float64\<close> exactly. On a string that is no number, \<open>ParseFloat\<close> returns 0 and a syntax
  error; on a number too large for a \<open>float64\<close>, such as \<open>1e999\<close>, it returns the infinity
  of its sign and a range error.
\<close>

definition invalid_syntax :: error where
  "invalid_syntax = ''invalid syntax''"

definition out_of_range :: error where
  "out_of_range = ''value out of range''"

definition table_ParseFloat :: "string \<Rightarrow> float64 \<times> error option" where
  "table_ParseFloat s =
     (if s = ''37.5'' then (Finite 37.5, None)
      else if s = ''-122.5'' then (Finite (- 122.5), None)
      else if s = ''100'' then (Finite 100, None)
      else if s = ''0'' then (Finite 0, None)
      else if s = ''1e999'' then (PosInf, Some out_of_range)
      else (Finite 0, Some invalid_syntax))"

definition test_link :: "string \<Rightarrow> string \<Rightarrow> string" where
  "test_link b obj = ''https://storage.example/'' @ b @ ''/'' @ obj"

definition test_env :: env where
  "test_env =
     \<lparr>hasFilteredWord = (\<lambda>m. m = ''spam''),
      ParseFloat = table_ParseFloat,
      FormatFloat = (\<lambda>x. ''?''),
      json_Marshal = (\<lambda>ps. Inr ''[]''),
      uuid_New = ''id-1'',
      fault = (\<lambda>c. None),
      media_link = test_link,
      search_hits = (\<lambda>lat lon rang. []),
      ENABLE_BIGTABLE = False\<rparr>"

definition st0 :: state where
  "st0 = \<lparr>gcs_buckets = {BUCKET_NAME}, gcs_objects = Map.empty, es_docs = Map.empty,
          bt_rows = Map.empty, trace = []\<rparr>"

definition post_req :: "string \<Rightarrow> string \<Rightarrow> Request" where
  "post_req message lat =
     \<lparr>query = [], post_form = [],
      multipart_form = [(''user'', ''alice''), (''message'', message), (''lat'', lat),
                        (''lon'', ''-122.5'')],
      files = [(''image'', ''PNG'')]\<rparr>"

definition search_req :: "string \<Rightarrow> Request" where
  "search_req radius =
     \<lparr>query = [(''lat'', ''37.5''), (''lon'', ''-122.5''), (''range'', radius)],
      post_form = [], multipart_form = [], files = []\<rparr>"

text \<open>A world with the secondary store enabled and out of reach.\<close>

definition bt_down :: error where
  "bt_down = ''bigtable: unavailable''"

definition bt_down_env :: env where
  "bt_down_env =
     test_env\<lparr>fault := (\<lambda>c. if is_bt_call c then Some bt_down else None),
              ENABLE_BIGTABLE := True\<rparr>"

text \<open>
  A world whose index answers every query with four hits: a post, a hit that does not
  unmarshal, a post whose message is filtered, and a hit without source.
\<close>

definition test_post :: "string \<Rightarrow> Post" where
  "test_post msg =
     \<lparr>User = ''alice'', Message = msg,
      Location = \<lparr>Lat = Finite 37.5, Lon = Finite (- 122.5)\<rparr>,
      Url = test_link BUCKET_NAME ''id-1''\<rparr>"

definition hits_env :: env where
  "hits_env =
     test_env\<lparr>search_hits :=
       (\<lambda>lat lon rang.
          [Decodable (test_post ''hello''), Undecodable, Decodable (test_post ''spam''),
           NoSource])\<rparr>"

text \<open>A world whose index answers only with hits that are dropped.\<close>

definition junk_env :: env where
  "junk_env =
     test_env\<lparr>search_hits :=
       (\<lambda>lat lon rang. [Undecodable, Decodable (test_post ''spam''), Undecodable])\<rparr>"

section \<open>The three writers as closed forms\<close>

text \<open>
  Each writer returns at its first failing call, so its result is decided by the first
  fault in its list of calls.
\<close>

lemmas gcs_defs = saveToGCS_def storage_NewClient_def bucket_Attrs_def io_Copy_def wc_Close_def
  ACL_Set_def object_Attrs_def issue_def

lemma saveToGCS_flat:
  "saveToGCS e r b obj st =
     (case fault e GcsNewClient of Some err \<Rightarrow> (Inl err, gcs_after st 1 b obj r) | None \<Rightarrow>
     (case fault e (GcsBucketAttrs b) of Some err \<Rightarrow> (Inl err, gcs_after st 2 b obj r) | None \<Rightarrow>
     (if b \<notin> gcs_buckets st then (Inl ErrBucketNotExist, gcs_after st 2 b obj r) else
     (case fault e (GcsCopy b obj r) of Some err \<Rightarrow> (Inl err, gcs_after st 3 b obj r) | None \<Rightarrow>
     (case fault e (GcsClose b obj) of Some err \<Rightarrow> (Inl err, gcs_after st 4 b obj r) | None \<Rightarrow>
     (case fault e (GcsACLSet b obj) of Some err \<Rightarrow> (Inl err, gcs_after st 5 b obj r) | None \<Rightarrow>
     (case fault e (GcsObjectAttrs b obj) of Some err \<Rightarrow> (Inl err, gcs_after st 6 b obj r)
      | None \<Rightarrow> (Inr \<lparr>Bucket = b, Name = obj, MediaLink = media_link e b obj\<rparr>,
                  gcs_after st 6 b obj r))))))))"
  by (simp add: gcs_defs gcs_after_def gcs_stages_def split: option.split)

lemma saveToES_flat:
  "saveToES e p i st =
     (case fault e EsNewClient of
        Some err \<Rightarrow> (Some err, st\<lparr>trace := trace st @ [EsNewClient]\<rparr>)
      | None \<Rightarrow>
     (if \<not> json_encodable p
      then (Some ErrUnsupportedValue, st\<lparr>trace := trace st @ [EsNewClient]\<rparr>)
      else
     (case fault e (EsIndex POST_INDEX POST_TYPE i p) of
        Some err \<Rightarrow> (Some err, st\<lparr>trace := trace st @ es_stages i p\<rparr>)
      | None \<Rightarrow> (None, st\<lparr>es_docs := (es_docs st)(i \<mapsto> p), trace := trace st @ es_stages i p\<rparr>))))"
  by (simp add: saveToES_def elastic_NewClient_def issue_def es_stages_def split: option.split)

lemma saveToBigTable_flat:
  "saveToBigTable e p i st =
     (case fault e BtNewClient of
        Some err \<Rightarrow> (Some err, st\<lparr>trace := trace st @ [BtNewClient]\<rparr>)
      | None \<Rightarrow>
     (case fault e (BtApply ''post'' i (bt_mutation e p)) of
        Some err \<Rightarrow> (Some err, st\<lparr>trace := trace st @ bt_stages e i p\<rparr>)
      | None \<Rightarrow> (None, st\<lparr>bt_rows := (bt_rows st)(i \<mapsto> bt_mutation e p),
                          trace := trace st @ bt_stages e i p\<rparr>)))"
  by (simp add: saveToBigTable_def issue_def bt_stages_def bt_mutation_def Let_def split: option.split)

lemma new_calls_append [simp]: "new_calls st (st'\<lparr>trace := trace st @ cs\<rparr>) = cs"
  by (simp add: new_calls_def)

lemma gcs_after_simps [simp]:
  "trace (gcs_after st n b obj r) = trace st @ take n (gcs_stages b obj r)"
  "gcs_buckets (gcs_after st n b obj r) = gcs_buckets st"
  "es_docs (gcs_after st n b obj r) = es_docs st"
  "bt_rows (gcs_after st n b obj r) = bt_rows st"
  "new_calls st (gcs_after st n b obj r) = take n (gcs_stages b obj r)"
  "gcs_objects (gcs_after st n b obj r) =
     (if n \<le> 4 then gcs_objects st
      else (gcs_objects st)((b, obj) \<mapsto> \<lparr>content = r, public = (n = 6)\<rparr>))"
  by (simp_all add: gcs_after_def new_calls_def)


lemma saveToGCS_cases [consumes 1, case_names fail ok]:
  assumes run: "saveToGCS e r b obj st = (res, st')"
  obtains (fail) n err where "1 \<le> n" "n \<le> 6" "res = Inl err" "st' = gcs_after st n b obj r"
      "\<forall>c \<in> set (take (n - 1) (gcs_stages b obj r)). fault e c = None"
      "fault e (gcs_stages b obj r ! (n - 1)) = Some err \<or>
       n = 2 \<and> b \<notin> gcs_buckets st \<and> err = ErrBucketNotExist"
    | (ok) "res = Inr \<lparr>Bucket = b, Name = obj, MediaLink = media_link e b obj\<rparr>"
      "st' = gcs_after st 6 b obj r" "b \<in> gcs_buckets st"
      "\<forall>c \<in> set (gcs_stages b obj r). fault e c = None"
proof (cases "fault e GcsNewClient")
  case (Some err)
  then have "saveToGCS e r b obj st = (Inl err, gcs_after st 1 b obj r)"
    by (simp add: saveToGCS_flat)
  with run have "res = Inl err" "st' = gcs_after st 1 b obj r" by simp_all
  then show ?thesis using Some by (intro fail[of 1 err]) (simp_all add: gcs_stages_def)
next
  case f1: None
  show ?thesis
  proof (cases "fault e (GcsBucketAttrs b)")
    case (Some err)
    with f1 have "saveToGCS e r b obj st = (Inl err, gcs_after st 2 b obj r)"
      by (simp add: saveToGCS_flat)
    with run have "res = Inl err" "st' = gcs_after st 2 b obj r" by simp_all
    then show ?thesis using f1 Some by (intro fail[of 2 err]) (simp_all add: gcs_stages_def)
  next
    case f2: None
    show ?thesis
    proof (cases "b \<in> gcs_buckets st")
      case False
      with f1 f2 have "saveToGCS e r b obj st = (Inl ErrBucketNotExist, gcs_after st 2 b obj r)"
        by (simp add: saveToGCS_flat)
      with run have "res = Inl ErrBucketNotExist" "st' = gcs_after st 2 b obj r" by simp_all
      then show ?thesis using f1 False
        by (intro fail[of 2 ErrBucketNotExist]) (simp_all add: gcs_stages_def)
    next
      case bk: True
      show ?thesis
      proof (cases "fault e (GcsCopy b obj r)")
        case (Some err)
        with f1 f2 bk have "saveToGCS e r b obj st = (Inl err, gcs_after st 3 b obj r)"
          by (simp add: saveToGCS_flat)
        with run have "res = Inl err" "st' = gcs_after st 3 b obj r" by simp_all
        then show ?thesis using f1 f2 Some
          by (intro fail[of 3 err]) (simp_all add: gcs_stages_def)
      next
        case f3: None
        show ?thesis
        proof (cases "fault e (GcsClose b obj)")
          case (Some err)
          with f1 f2 bk f3 have "saveToGCS e r b obj st = (Inl err, gcs_after st 4 b obj r)"
            by (simp add: saveToGCS_flat)
          with run have "res = Inl err" "st' = gcs_after st 4 b obj r" by simp_all
          then show ?thesis using f1 f2 f3 Some
            by (intro fail[of 4 err]) (simp_all add: gcs_stages_def)
        next
          case f4: None
          show ?thesis
          proof (cases "fault e (GcsACLSet b obj)")
            case (Some err)
            with f1 f2 bk f3 f4 have "saveToGCS e r b obj st = (Inl err, gcs_after st 5 b obj r)"
              by (simp add: saveToGCS_flat)
            with run have "res = Inl err" "st' = gcs_after st 5 b obj r" by simp_all
            then show ?thesis using f1 f2 f3 f4 Some
              by (intro fail[of 5 err]) (simp_all add: gcs_stages_def)
          next
            case f5: None
            show ?thesis
            proof (cases "fault e (GcsObjectAttrs b obj)")
              case (Some err)
              with f1 f2 bk f3 f4 f5
              have "saveToGCS e r b obj st = (Inl err, gcs_after st 6 b obj r)"
                by (simp add: saveToGCS_flat)
              with run have "res = Inl err" "st' = gcs_after st 6 b obj r" by simp_all
              then show ?thesis using f1 f2 f3 f4 f5 Some
                by (intro fail[of 6 err]) (simp_all add: gcs_stages_def)
            next
              case f6: None
              with f1 f2 bk f3 f4 f5
              have "saveToGCS e r b obj st =
                      (Inr \<lparr>Bucket = b, Name = obj, MediaLink = media_link e b obj\<rparr>,
                       gcs_after st 6 b obj r)"
                by (simp add: saveToGCS_flat)
              with run have "res = Inr \<lparr>Bucket = b, Name = obj, MediaLink = media_link e b obj\<rparr>"
                "st' = gcs_after st 6 b obj r" by simp_all
              then show ?thesis using f1 f2 f3 f4 f5 f6 bk
                by (intro ok) (simp_all add: gcs_stages_def)
            qed
          qed
        qed
      qed
    qed
  qed
qed

section \<open>The paths through \<open>handlePost\<close>\<close>

text \<open>
  \<open>handlePost\<close> has nine ways to end; each fixes the outcome and the final state.
\<close>

lemma post_stored_simps [simp]:
  "gcs_buckets (post_stored e r img st) = gcs_buckets st"
  "bt_rows (post_stored e r img st) = bt_rows st"
  "es_docs (post_stored e r img st) = (es_docs st)(uuid_New e \<mapsto> indexed_post e r)"
  "gcs_objects (post_stored e r img st) =
     (gcs_objects st)((BUCKET_NAME, uuid_New e) \<mapsto> \<lparr>content = img, public = True\<rparr>)"
  "trace (post_stored e r img st) =
     trace st @ gcs_stages BUCKET_NAME (uuid_New e) img @
       es_stages (uuid_New e) (indexed_post e r)"
  by (simp_all add: post_stored_def)

lemma handlePost_cases [consumes 1, case_names spam no_image gcs_failed es_client_failed
    es_encode_failed es_index_failed stored bt_client_failed bt_apply_failed mirrored]:
  assumes run: "handlePost e r st = (out, st')"
  obtains
    (spam) "hasFilteredWord e (FormValue r ''message'')"
      "out = http_Error ''Sorry, the post contains filtered words. Please edit again. ''
               StatusBadRequest"
      "st' = st"
  | (no_image) "\<not> hasFilteredWord e (FormValue r ''message'')"
      "FormFile r ''image'' = None"
      "out = http_Error ''Image is not available'' StatusBadRequest" "st' = st"
  | (gcs_failed) img n err where "\<not> hasFilteredWord e (FormValue r ''message'')"
      "FormFile r ''image'' = Some img"
      "saveToGCS e img BUCKET_NAME (uuid_New e) st = (Inl err, st')"
      "1 \<le> n" "n \<le> 6" "st' = gcs_after st n BUCKET_NAME (uuid_New e) img"
      "out = http_Error ''Failed to save image to GCS'' StatusInternalServerError"
  | (es_client_failed) img err where "\<not> hasFilteredWord e (FormValue r ''message'')"
      "FormFile r ''image'' = Some img"
      "saveToGCS e img BUCKET_NAME (uuid_New e) st =
         (Inr \<lparr>Bucket = BUCKET_NAME, Name = uuid_New e,
               MediaLink = media_link e BUCKET_NAME (uuid_New e)\<rparr>,
          gcs_after st 6 BUCKET_NAME (uuid_New e) img)"
      "fault e EsNewClient = Some err"
      "st' = (gcs_after st 6 BUCKET_NAME (uuid_New e) img)
               \<lparr>trace := trace st @ gcs_stages BUCKET_NAME (uuid_New e) img @ [EsNewClient]\<rparr>"
      "out = http_Error ''Failed to save post to ElasticSearch'' StatusInternalServerError"
  | (es_encode_failed) img where "\<not> hasFilteredWord e (FormValue r ''message'')"
      "FormFile r ''image'' = Some img"
      "saveToGCS e img BUCKET_NAME (uuid_New e) st =
         (Inr \<lparr>Bucket = BUCKET_NAME, Name = uuid_New e,
               MediaLink = media_link e BUCKET_NAME (uuid_New e)\<rparr>,
          gcs_after st 6 BUCKET_NAME (uuid_New e) img)"
      "fault e EsNewClient = None"
      "\<not> json_encodable (indexed_post e r)"
      "st' = (gcs_after st 6 BUCKET_NAME (uuid_New e) img)
               \<lparr>trace := trace st @ gcs_stages BUCKET_NAME (uuid_New e) img @ [EsNewClient]\<rparr>"
      "out = http_Error ''Failed to save post to ElasticSearch'' StatusInternalServerError"
  | (es_index_failed) img err where "\<not> hasFilteredWord e (FormValue r ''message'')"
      "FormFile r ''image'' = Some img"
      "saveToGCS e img BUCKET_NAME (uuid_New e) st =
         (Inr \<lparr>Bucket = BUCKET_NAME, Name = uuid_New e,
               MediaLink = media_link e BUCKET_NAME (uuid_New e)\<rparr>,
          gcs_after st 6 BUCKET_NAME (uuid_New e) img)"
      "fault e EsNewClient = None"
      "json_encodable (indexed_post e r)"
      "fault e (EsIndex POST_INDEX POST_TYPE (uuid_New e) (indexed_post e r)) = Some err"
      "st' = (gcs_after st 6 BUCKET_NAME (uuid_New e) img)
               \<lparr>trace := trace st @ gcs_stages BUCKET_NAME (uuid_New e) img @
                           es_stages (uuid_New e) (indexed_post e r)\<rparr>"
      "out = http_Error ''Failed to save post to ElasticSearch'' StatusInternalServerError"
  | (stored) img where "\<not> hasFilteredWord e (FormValue r ''message'')"
      "FormFile r ''image'' = Some img"
      "saveToGCS e img BUCKET_NAME (uuid_New e) st =
         (Inr \<lparr>Bucket = BUCKET_NAME, Name = uuid_New e,
               MediaLink = media_link e BUCKET_NAME (uuid_New e)\<rparr>,
          gcs_after st 6 BUCKET_NAME (uuid_New e) img)"
      "BUCKET_NAME \<in> gcs_buckets st"
      "json_encodable (indexed_post e r)"
      "\<forall>c \<in> set (gcs_stages BUCKET_NAME (uuid_New e) img @
                   es_stages (uuid_New e) (indexed_post e r)). fault e c = None"
      "\<not> ENABLE_BIGTABLE e" "st' = post_stored e r img st" "out = Response StatusOK ''''"
  | (bt_client_failed) img err where "\<not> hasFilteredWord e (FormValue r ''message'')"
      "FormFile r ''image'' = Some img"
      "saveToGCS e img BUCKET_NAME (uuid_New e) st =
         (Inr \<lparr>Bucket = BUCKET_NAME, Name = uuid_New e,
               MediaLink = media_link e BUCKET_NAME (uuid_New e)\<rparr>,
          gcs_after st 6 BUCKET_NAME (uuid_New e) img)"
      "BUCKET_NAME \<in> gcs_buckets st"
      "json_encodable (indexed_post e r)"
      "\<forall>c \<in> set (gcs_stages BUCKET_NAME (uuid_New e) img @
                   es_stages (uuid_New e) (indexed_post e r)). fault e c = None"
      "ENABLE_BIGTABLE e" "fault e BtNewClient = Some err"
      "st' = (post_stored e r img st)
               \<lparr>trace := trace (post_stored e r img st) @ [BtNewClient]\<rparr>"
      "out = Panic err"
  | (bt_apply_failed) img err where "\<not> hasFilteredWord e (FormValue r ''message'')"
      "FormFile r ''image'' = Some img"
      "saveToGCS e img BUCKET_NAME (uuid_New e) st =
         (Inr \<lparr>Bucket = BUCKET_NAME, Name = uuid_New e,
               MediaLink = media_link e BUCKET_NAME (uuid_New e)\<rparr>,
          gcs_after st 6 BUCKET_NAME (uuid_New e) img)"
      "BUCKET_NAME \<in> gcs_buckets st"
      "json_encodable (indexed_post e r)"
      "\<forall>c \<in> set (gcs_stages BUCKET_NAME (uuid_New e) img @
                   es_stages (uuid_New e) (indexed_post e r)). fault e c = None"
      "ENABLE_BIGTABLE e" "fault e BtNewClient = None"
      "fault e (BtApply ''post'' (uuid_New e) (bt_mutation e (indexed_post e r))) = Some err"
      "st' = (post_stored e r img st)
               \<lparr>trace := trace (post_stored e r img st) @
                           bt_stages e (uuid_New e) (indexed_post e r)\<rparr>"
      "out = Panic err"
  | (mirrored) img where "\<not> hasFilteredWord e (FormValue r ''message'')"
      "FormFile r ''image'' = Some img"
      "saveToGCS e img BUCKET_NAME (uuid_New e) st =
         (Inr \<lparr>Bucket = BUCKET_NAME, Name = uuid_New e,
               MediaLink = media_link e BUCKET_NAME (uuid_New e)\<rparr>,
          gcs_after st 6 BUCKET_NAME (uuid_New e) img)"
      "BUCKET_NAME \<in> gcs_buckets st"
      "json_encodable (indexed_post e r)"
      "\<forall>c \<in> set (gcs_stages BUCKET_NAME (uuid_New e) img @
                   es_stages (uuid_New e) (indexed_post e r) @
                   bt_stages e (uuid_New e) (indexed_post e r)). fault e c = None"
      "ENABLE_BIGTABLE e"
      "st' = (post_stored e r img st)
               \<lparr>bt_rows := (bt_rows st)(uuid_New e \<mapsto> bt_mutation e (indexed_post e r)),
                trace := trace (post_stored e r img st) @
                           bt_stages e (uuid_New e) (indexed_post e r)\<rparr>"
      "out = Response StatusOK ''''"
proof (cases "hasFilteredWord e (FormValue r ''message'')")
  case True
  with run show ?thesis by (intro spam) (simp_all add: handlePost_def Let_def)
next
  case nf: False
  show ?thesis
  proof (cases "FormFile r ''image''")
    case None
    with run nf show ?thesis by (intro no_image) (simp_all add: handlePost_def Let_def)
  next
    case (Some img)
    obtain res st1 where g: "saveToGCS e img BUCKET_NAME (uuid_New e) st = (res, st1)"
      by (cases "saveToGCS e img BUCKET_NAME (uuid_New e) st") auto
    from g show ?thesis
    proof (cases rule: saveToGCS_cases)
      case (fail n err)
      from run nf Some g fail(3) have "out = http_Error ''Failed to save image to GCS''
          StatusInternalServerError" "st' = st1"
        by (simp_all add: handlePost_def Let_def)
      with nf Some g fail show ?thesis by (intro gcs_failed[of img err n]) simp_all
    next
      case ok
      let ?p = "indexed_post e r"
      let ?i = "uuid_New e"
      have p: "\<lparr>User = FormValue r ''user'', Message = FormValue r ''message'',
                 Location = \<lparr>Lat = fst (ParseFloat e (FormValue r ''lat'')),
                             Lon = fst (ParseFloat e (FormValue r ''lon''))\<rparr>,
                 Url = media_link e BUCKET_NAME (uuid_New e)\<rparr> = ?p"
        by (simp add: indexed_post_def)
      from run nf Some g ok(1) have run2:
        "(case saveToES e ?p ?i st1 of
            (Some err, st2) \<Rightarrow>
              (http_Error ''Failed to save post to ElasticSearch'' StatusInternalServerError, st2)
          | (None, st2) \<Rightarrow>
              (if ENABLE_BIGTABLE e
               then (case saveToBigTable e ?p ?i st2 of
                       (Some err, st3) \<Rightarrow> (Panic err, st3)
                     | (None, st3) \<Rightarrow> (Response StatusOK '''', st3))
               else (Response StatusOK '''', st2))) = (out, st')"
        by (simp add: handlePost_def p) (simp add: Let_def)
      from g ok have g': "saveToGCS e img BUCKET_NAME (uuid_New e) st =
         (Inr \<lparr>Bucket = BUCKET_NAME, Name = uuid_New e,
               MediaLink = media_link e BUCKET_NAME (uuid_New e)\<rparr>,
          gcs_after st 6 BUCKET_NAME (uuid_New e) img)" by simp
      have tr1: "trace st1 = trace st @ gcs_stages BUCKET_NAME ?i img"
        using ok(2) by (simp add: gcs_stages_def)
      show ?thesis
      proof (cases "fault e EsNewClient")
        case (Some err)
        with run2 have "out = http_Error ''Failed to save post to ElasticSearch''
            StatusInternalServerError" "st' = st1\<lparr>trace := trace st1 @ [EsNewClient]\<rparr>"
          by (simp_all add: saveToES_flat)
        with nf \<open>FormFile r ''image'' = Some img\<close> g' Some ok(2) tr1 show ?thesis
          by (intro es_client_failed[of img err]) simp_all
      next
        case e1: None
        show ?thesis
        proof (cases "json_encodable ?p")
          case False
          with run2 e1 have "out = http_Error ''Failed to save post to ElasticSearch''
              StatusInternalServerError" "st' = st1\<lparr>trace := trace st1 @ [EsNewClient]\<rparr>"
            by (simp_all add: saveToES_flat)
          with nf \<open>FormFile r ''image'' = Some img\<close> g' False e1 ok(2) tr1 show ?thesis
            by (intro es_encode_failed[of img]) simp_all
        next
        case enc: True
        show ?thesis
        proof (cases "fault e (EsIndex POST_INDEX POST_TYPE ?i ?p)")
          case (Some err)
          with run2 e1 enc have "out = http_Error ''Failed to save post to ElasticSearch''
              StatusInternalServerError" "st' = st1\<lparr>trace := trace st1 @ es_stages ?i ?p\<rparr>"
            by (simp_all add: saveToES_flat)
          with nf \<open>FormFile r ''image'' = Some img\<close> g' Some e1 enc ok(2) tr1 show ?thesis
            by (intro es_index_failed[of img err]) simp_all
        next
          case e2: None
          let ?st2 = "st1\<lparr>es_docs := (es_docs st1)(?i \<mapsto> ?p), trace := trace st1 @ es_stages ?i ?p\<rparr>"
          have st2: "?st2 = post_stored e r img st"
            using ok(2) by (simp add: post_stored_def gcs_after_def gcs_stages_def)
          from run2 e1 e2 enc have run3:
            "(if ENABLE_BIGTABLE e
               then (case saveToBigTable e ?p ?i ?st2 of
                       (Some err, st3) \<Rightarrow> (Panic err, st3)
                     | (None, st3) \<Rightarrow> (Response StatusOK '''', st3))
               else (Response StatusOK '''', ?st2)) = (out, st')"
            by (simp add: saveToES_flat)
          have nofault: "\<forall>c \<in> set (gcs_stages BUCKET_NAME ?i img @ es_stages ?i ?p). fault e c = None"
            using ok(4) e1 e2 by (simp add: es_stages_def)
          show ?thesis
          proof (cases "ENABLE_BIGTABLE e")
            case False
            with run3 have "out = Response StatusOK ''''" "st' = ?st2" by simp_all
            with nf \<open>FormFile r ''image'' = Some img\<close> g' enc ok(3) nofault False st2 show ?thesis
              by (intro stored[of img]) simp_all
          next
            case en: True
            show ?thesis
            proof (cases "fault e BtNewClient")
              case (Some err)
              with run3 en have "out = Panic err" "st' = ?st2\<lparr>trace := trace ?st2 @ [BtNewClient]\<rparr>"
                by (simp_all add: saveToBigTable_flat)
              with nf \<open>FormFile r ''image'' = Some img\<close> g' enc ok(3) nofault en st2 Some show ?thesis
                by (intro bt_client_failed[of img err]) simp_all
            next
              case b1: None
              show ?thesis
              proof (cases "fault e (BtApply ''post'' ?i (bt_mutation e ?p))")
                case (Some err)
                with run3 en b1 have "out = Panic err"
                  "st' = ?st2\<lparr>trace := trace ?st2 @ bt_stages e ?i ?p\<rparr>"
                  by (simp_all add: saveToBigTable_flat)
                with nf \<open>FormFile r ''image'' = Some img\<close> g' enc ok(3) nofault en st2 b1 Some
                show ?thesis
                  by (intro bt_apply_failed[of img err]) simp_all
              next
                case b2: None
                with run3 en b1 have "out = Response StatusOK ''''"
                  "st' = ?st2\<lparr>bt_rows := (bt_rows ?st2)(?i \<mapsto> bt_mutation e ?p),
                              trace := trace ?st2 @ bt_stages e ?i ?p\<rparr>"
                  by (simp_all add: saveToBigTable_flat)
                moreover have "\<forall>c \<in> set (gcs_stages BUCKET_NAME ?i img @ es_stages ?i ?p @
                    bt_stages e ?i ?p). fault e c = None"
                  using nofault b1 b2 by (simp add: bt_stages_def)
                ultimately show ?thesis
                  using nf \<open>FormFile r ''image'' = Some img\<close> g' enc ok(3) en st2
                  by (intro mirrored[of img]) simp_all
              qed
            qed
          qed
        qed
        qed
      qed
    qed
  qed
qed

lemma saveToGCS_ok:
  assumes "b \<in> gcs_buckets st" "\<forall>c \<in> set (gcs_stages b obj r). fault e c = None"
  shows "saveToGCS e r b obj st =
           (Inr \<lparr>Bucket = b, Name = obj, MediaLink = media_link e b obj\<rparr>,
            gcs_after st 6 b obj r)"
  using assms by (simp add: saveToGCS_flat gcs_stages_def)

lemma gcs_stages_not_es: "c \<in> set (gcs_stages b obj r) \<Longrightarrow> \<not> is_es_call c \<and> \<not> is_bt_call c"
  by (auto simp add: gcs_stages_def)

lemma take_gcs_stages_not_es:
  "c \<in> set (take n (gcs_stages b obj r)) \<Longrightarrow> \<not> is_es_call c \<and> \<not> is_bt_call c"
  using gcs_stages_not_es by (blast dest: in_set_takeD)

lemma new_calls_self [simp]: "new_calls st st = []"
  by (simp add: new_calls_def)

lemma new_calls_post_stored [simp]:
  "new_calls st (post_stored e r img st) =
     gcs_stages BUCKET_NAME (uuid_New e) img @ es_stages (uuid_New e) (indexed_post e r)"
  by (simp add: new_calls_def)

lemma new_calls_post_stored_more [simp]:
  "new_calls st (x\<lparr>trace := trace (post_stored e r img st) @ cs\<rparr>) =
     gcs_stages BUCKET_NAME (uuid_New e) img @ es_stages (uuid_New e) (indexed_post e r) @ cs"
  by (simp add: new_calls_def)

text \<open>The calls of a run in one of three shapes.\<close>

lemma handlePost_calls:
  assumes run: "handlePost e r st = (out, st')"
  shows "new_calls st st' = [] \<and> es_docs st' = es_docs st \<or>
         (\<exists>img n. FormFile r ''image'' = Some img \<and>
            new_calls st st' = take n (gcs_stages BUCKET_NAME (uuid_New e) img) \<and>
            es_docs st' = es_docs st) \<or>
         (\<exists>img rest. FormFile r ''image'' = Some img \<and>
            saveToGCS e img BUCKET_NAME (uuid_New e) st =
              (Inr \<lparr>Bucket = BUCKET_NAME, Name = uuid_New e,
                    MediaLink = media_link e BUCKET_NAME (uuid_New e)\<rparr>,
               gcs_after st 6 BUCKET_NAME (uuid_New e) img) \<and>
            new_calls st st' =
              gcs_stages BUCKET_NAME (uuid_New e) img @ EsNewClient # rest \<and>
            (rest = [] \<or>
             (\<exists>bt. rest = EsIndex POST_INDEX POST_TYPE (uuid_New e) (indexed_post e r) # bt \<and>
                   (\<forall>c \<in> set bt. is_bt_call c))))"
  using run
proof (cases rule: handlePost_cases)
  case spam
  then show ?thesis by simp
next
  case no_image
  then show ?thesis by simp
next
  case (gcs_failed img n err)
  then show ?thesis by auto
next
  case (es_client_failed img err)
  then show ?thesis by simp
next
  case (es_encode_failed img)
  then show ?thesis by simp
next
  case (es_index_failed img err)
  then show ?thesis by (simp add: es_stages_def)
next
  case (stored img)
  then have g: "saveToGCS e img BUCKET_NAME (uuid_New e) st =
              (Inr \<lparr>Bucket = BUCKET_NAME, Name = uuid_New e,
                    MediaLink = media_link e BUCKET_NAME (uuid_New e)\<rparr>,
               gcs_after st 6 BUCKET_NAME (uuid_New e) img)"
    by (intro saveToGCS_ok) simp_all
  with stored show ?thesis by (simp add: es_stages_def)
next
  case (bt_client_failed img err)
  then have g: "saveToGCS e img BUCKET_NAME (uuid_New e) st =
              (Inr \<lparr>Bucket = BUCKET_NAME, Name = uuid_New e,
                    MediaLink = media_link e BUCKET_NAME (uuid_New e)\<rparr>,
               gcs_after st 6 BUCKET_NAME (uuid_New e) img)"
    by (intro saveToGCS_ok) simp_all
  with bt_client_failed show ?thesis by (simp add: es_stages_def)
next
  case (bt_apply_failed img err)
  then have g: "saveToGCS e img BUCKET_NAME (uuid_New e) st =
              (Inr \<lparr>Bucket = BUCKET_NAME, Name = uuid_New e,
                    MediaLink = media_link e BUCKET_NAME (uuid_New e)\<rparr>,
               gcs_after st 6 BUCKET_NAME (uuid_New e) img)"
    by (intro saveToGCS_ok) simp_all
  with bt_apply_failed show ?thesis by (simp add: es_stages_def bt_stages_def)
next
  case (mirrored img)
  then have g: "saveToGCS e img BUCKET_NAME (uuid_New e) st =
              (Inr \<lparr>Bucket = BUCKET_NAME, Name = uuid_New e,
                    MediaLink = media_link e BUCKET_NAME (uuid_New e)\<rparr>,
               gcs_after st 6 BUCKET_NAME (uuid_New e) img)"
    by (intro saveToGCS_ok) simp_all
  with mirrored show ?thesis by (simp add: es_stages_def bt_stages_def)
qed

lemma http_Error_not_OK [simp]:
  "http_Error msg code \<noteq> Response StatusOK []" "http_Error msg code \<noteq> Panic err"
  by (simp_all add: http_Error_def)

lemma handlePost_stored:
  assumes nf: "\<not> hasFilteredWord e (FormValue r ''message'')"
    and img: "FormFile r ''image'' = Some img"
    and bk: "BUCKET_NAME \<in> gcs_buckets st"
    and ok: "\<forall>c \<in> set (gcs_stages BUCKET_NAME (uuid_New e) img @
                       es_stages (uuid_New e) (indexed_post e r)). fault e c = None"
    and enc: "json_encodable (indexed_post e r)"
    and off: "\<not> ENABLE_BIGTABLE e"
  shows "handlePost e r st = (Response StatusOK [], post_stored e r img st)"
proof -
  obtain out st' where run: "handlePost e r st = (out, st')"
    by (cases "handlePost e r st") auto
  from ok bk have g: "saveToGCS e img BUCKET_NAME (uuid_New e) st =
      (Inr \<lparr>Bucket = BUCKET_NAME, Name = uuid_New e,
            MediaLink = media_link e BUCKET_NAME (uuid_New e)\<rparr>,
       gcs_after st 6 BUCKET_NAME (uuid_New e) img)"
    by (intro saveToGCS_ok) simp_all
  from ok have es: "fault e EsNewClient = None"
    "fault e (EsIndex POST_INDEX POST_TYPE (uuid_New e) (indexed_post e r)) = None"
    by (simp_all add: es_stages_def)
  from run have "out = Response StatusOK [] \<and> st' = post_stored e r img st"
    using nf img g es enc off by (cases rule: handlePost_cases) simp_all
  with run show ?thesis by simp
qed

text \<open>The concrete world, evaluated.\<close>

lemma test_env_simps [simp]:
  "hasFilteredWord test_env m = (m = ''spam'')"
  "ParseFloat test_env = table_ParseFloat"
  "uuid_New test_env = ''id-1''"
  "fault test_env c = None"
  "media_link test_env = test_link"
  "\<not> ENABLE_BIGTABLE test_env"
  by (simp_all add: test_env_def)

lemma post_req_simps [simp]:
  "FormValue (post_req msg lat) ''message'' = msg"
  "FormValue (post_req msg lat) ''user'' = ''alice''"
  "FormValue (post_req msg lat) ''lat'' = lat"
  "FormValue (post_req msg lat) ''lon'' = ''-122.5''"
  "FormFile (post_req msg lat) ''image'' = Some ''PNG''"
  by (simp_all add: post_req_def FormValue_def FormFile_def)

lemma test_env_stored:
  assumes "msg \<noteq> ''spam''" "is_finite (fst (table_ParseFloat lat))"
  shows "handlePost test_env (post_req msg lat) st0 =
           (Response StatusOK [], post_stored test_env (post_req msg lat) ''PNG'' st0)"
  using assms
  by (intro handlePost_stored)
     (simp_all add: st0_def json_encodable_def indexed_post_def table_ParseFloat_def)

lemma OK_not_http_Error [simp]:
  "Response StatusOK [] \<noteq> http_Error msg code" "Panic err \<noteq> http_Error msg code"
  by (simp_all add: http_Error_def)

lemma handlePost_EsIndex:
  assumes run: "handlePost e r st = (out, st')"
    and c: "EsIndex ix ty i p \<in> set (new_calls st st')"
  shows "ix = POST_INDEX \<and> ty = POST_TYPE \<and> i = uuid_New e \<and> p = indexed_post e r"
proof -
  from handlePost_calls [OF run] c
  obtain img rest where
    nc: "new_calls st st' = gcs_stages BUCKET_NAME (uuid_New e) img @ EsNewClient # rest"
    and rest: "rest = [] \<or>
       (\<exists>bt. rest = EsIndex POST_INDEX POST_TYPE (uuid_New e) (indexed_post e r) # bt \<and>
             (\<forall>c \<in> set bt. is_bt_call c))"
    using take_gcs_stages_not_es by fastforce
  from c nc have "EsIndex ix ty i p \<in> set (gcs_stages BUCKET_NAME (uuid_New e) img) \<or>
      EsIndex ix ty i p \<in> set rest" by auto
  with gcs_stages_not_es have "EsIndex ix ty i p \<in> set rest" by fastforce
  with rest show ?thesis by force
qed

lemma handlePost_all_ok:
  assumes nf: "\<not> hasFilteredWord e (FormValue r ''message'')"
    and img: "FormFile r ''image'' = Some img"
    and bk: "BUCKET_NAME \<in> gcs_buckets st"
    and ok: "\<forall>c. fault e c = None"
    and enc: "json_encodable (indexed_post e r)"
  shows "fst (handlePost e r st) = Response StatusOK []"
proof -
  obtain out st' where run: "handlePost e r st = (out, st')"
    by (cases "handlePost e r st") auto
  from ok bk have g: "saveToGCS e img BUCKET_NAME (uuid_New e) st =
      (Inr \<lparr>Bucket = BUCKET_NAME, Name = uuid_New e,
            MediaLink = media_link e BUCKET_NAME (uuid_New e)\<rparr>,
       gcs_after st 6 BUCKET_NAME (uuid_New e) img)"
    by (intro saveToGCS_ok) simp_all
  from run have "out = Response StatusOK []"
    using nf img g ok enc by (cases rule: handlePost_cases) simp_all
  with run show ?thesis by simp
qed

lemma handlePost_ParseFloat_errors:
  "handlePost (e\<lparr>ParseFloat := \<lambda>s. (fst (ParseFloat e s), err s)\<rparr>) r st = handlePost e r st"
proof -
  define e' where "e' = e\<lparr>ParseFloat := \<lambda>s. (fst (ParseFloat e s), err s)\<rparr>"
  have 1: "saveToGCS e' = saveToGCS e"
    by (intro ext) (simp add: saveToGCS_flat e'_def split: option.split)
  have 2: "saveToES e' = saveToES e"
    by (intro ext) (simp add: saveToES_flat e'_def split: option.split)
  have 3: "saveToBigTable e' = saveToBigTable e"
    by (intro ext) (simp add: saveToBigTable_flat bt_mutation_def bt_stages_def e'_def split: option.split)
  have 4: "hasFilteredWord e' = hasFilteredWord e" "uuid_New e' = uuid_New e"
    "ENABLE_BIGTABLE e' = ENABLE_BIGTABLE e"
    "\<And>s. fst (ParseFloat e' s) = fst (ParseFloat e s)"
    by (simp_all add: e'_def)
  have "handlePost e' r st = handlePost e r st"
    unfolding handlePost_def 1 2 3 4 ..
  then show ?thesis by (simp add: e'_def)
qed

lemma mirror_ok_simps [simp]:
  "hasFilteredWord (mirror_ok e) = hasFilteredWord e"
  "ParseFloat (mirror_ok e) = ParseFloat e"
  "FormatFloat (mirror_ok e) = FormatFloat e"
  "uuid_New (mirror_ok e) = uuid_New e"
  "media_link (mirror_ok e) = media_link e"
  "ENABLE_BIGTABLE (mirror_ok e) = ENABLE_BIGTABLE e"
  "fault (mirror_ok e) c = (if is_bt_call c then None else fault e c)"
  by (simp_all add: mirror_ok_def)

lemma mirror_ok_writers [simp]:
  "saveToGCS (mirror_ok e) = saveToGCS e"
  "saveToES (mirror_ok e) = saveToES e"
  "indexed_post (mirror_ok e) = indexed_post e"
  "bt_mutation (mirror_ok e) = bt_mutation e"
  "bt_stages (mirror_ok e) = bt_stages e"
  "post_stored (mirror_ok e) = post_stored e"
  by (intro ext, simp add: saveToGCS_flat split: option.split)
     (intro ext, simp add: saveToES_flat split: option.split,
      intro ext, simp add: indexed_post_def,
      intro ext, simp add: bt_mutation_def,
      intro ext, simp add: bt_stages_def bt_mutation_def,
      intro ext, simp add: post_stored_def indexed_post_def)

section \<open>The search path\<close>

text \<open>\<open>readFromES\<close> by the first fault of its two calls, and its loop as a filter.\<close>

lemma readFromES_flat:
  "readFromES e lat lon rang st =
     (case fault e EsNewClient of
        Some err \<Rightarrow> (Inl err, st\<lparr>trace := trace st @ [EsNewClient]\<rparr>)
      | None \<Rightarrow>
     (case fault e (EsSearch POST_INDEX lat lon rang) of
        Some err \<Rightarrow>
          (Inl err, st\<lparr>trace := trace st @ [EsNewClient, EsSearch POST_INDEX lat lon rang]\<rparr>)
      | None \<Rightarrow>
          (Inr (collect e (Each (search_hits e lat lon rang)) []),
           st\<lparr>trace := trace st @ [EsNewClient, EsSearch POST_INDEX lat lon rang]\<rparr>)))"
  by (simp add: readFromES_def elastic_NewClient_def issue_def split: option.split)

lemma collect_filter:
  "collect e items acc = acc @ [p \<leftarrow> posts_of items. \<not> hasFilteredWord e (Message p)]"
  by (induction e items acc rule: collect.induct) simp_all

lemma Each_drop_Undecodable: "Each [h \<leftarrow> hs. h \<noteq> Undecodable] = Each hs"
  by (induction hs rule: Each.induct) simp_all

lemma posts_of_Each_Decodable: "Decodable p \<in> set hs \<Longrightarrow> p \<in> set (posts_of (Each hs))"
  by (induction hs rule: Each.induct) auto

lemma posts_of_Each_none:
  assumes "\<forall>h \<in> set hs. h = Undecodable \<or> (\<exists>p. h = Decodable p \<and> hasFilteredWord e (Message p))"
  shows "[p \<leftarrow> posts_of (Each hs). \<not> hasFilteredWord e (Message p)] = []"
  using assms by (induction hs rule: Each.induct) auto

lemma hits_env_simps [simp]:
  "hasFilteredWord hits_env m = (m = ''spam'')"
  "fault hits_env c = None"
  "search_hits hits_env lat lon rang =
     [Decodable (test_post ''hello''), Undecodable, Decodable (test_post ''spam''), NoSource]"
  "ParseFloat hits_env = table_ParseFloat"
  by (simp_all add: hits_env_def)

lemma junk_env_simps [simp]:
  "hasFilteredWord junk_env m = (m = ''spam'')"
  "fault junk_env c = None"
  "search_hits junk_env lat lon rang = [Undecodable, Decodable (test_post ''spam''), Undecodable]"
  by (simp_all add: junk_env_def)

lemma test_post_Message [simp]: "Message (test_post msg) = msg"
  by (simp add: test_post_def)

lemma Message_zero_Post [simp]: "Message zero_Post = []"
  by (simp add: zero_Post_def)

lemma search_req_simps [simp]:
  "Query_Get (search_req radius) ''lat'' = ''37.5''"
  "Query_Get (search_req radius) ''lon'' = ''-122.5''"
  "Query_Get (search_req radius) ''range'' = radius"
  by (simp_all add: search_req_def Query_Get_def)

lemma handleSearch_calls:
  "new_calls st (snd (handleSearch e r st)) =
     EsNewClient #
       (if fault e EsNewClient = None
        then [EsSearch POST_INDEX (fst (ParseFloat e (Query_Get r ''lat'')))
                (fst (ParseFloat e (Query_Get r ''lon'')))
                (if Query_Get r ''range'' = [] then DISTANCE else Query_Get r ''range'' @ ''km'')]
        else [])"
  by (simp add: handleSearch_def Let_def readFromES_flat split: option.split sum.split)

section \<open>Rejection of filtered messages\<close>

text \<open>
  C1. When the message of an ingestion request contains a filtered word, \<open>handlePost\<close>
  answers 400 with the filtered-words message and returns the state it was given: no
  call to the asset store, the index store or the secondary store was issued and no
  store changed.
\<close>

theorem handlePost_filtered_rejected:
  assumes "hasFilteredWord e (FormValue r ''message'')"
  shows "handlePost e r st =
           (Response StatusBadRequest
              (''Sorry, the post contains filtered words. Please edit again. '' @ [CHR 0x0A]), st)"
  using assms by (simp add: handlePost_def http_Error_def)

theorem handlePost_filtered_rejected_witness:
  "hasFilteredWord test_env (FormValue (post_req ''spam'' ''37.5'') ''message'') \<and>
   handlePost test_env (post_req ''spam'' ''37.5'') st0 =
     (Response StatusBadRequest
        (''Sorry, the post contains filtered words. Please edit again. '' @ [CHR 0x0A]), st0)"
proof -
  have h: "hasFilteredWord test_env (FormValue (post_req ''spam'' ''37.5'') ''message'')"
    by (simp add: test_env_def post_req_def FormValue_def)
  from handlePost_filtered_rejected [OF h, of st0] h show ?thesis by simp
qed

section \<open>The stages of the asset store write\<close>

text \<open>
  C7. Every run of \<open>saveToGCS\<close> issues a prefix of the six calls new client, bucket
  attributes, copy, close, set ACL, object attributes, in this order and each once (no
  retry); every call before the last one succeeded. The set of buckets never changes, so
  a missing bucket is not created. Nothing is stored before \<open>Close\<close> has succeeded, the
  object is private until the ACL has been set, and it holds all the bytes. The run
  succeeds only with all six calls done on an existing bucket, and then returns the
  object's attributes with its media link; otherwise it returns the error of the last
  call it issued.
\<close>

theorem saveToGCS_stages_in_order:
  assumes run: "saveToGCS e r b obj st = (res, st')"
  shows "\<exists>n. 1 \<le> n \<and> n \<le> 6 \<and>
           new_calls st st' = take n (gcs_stages b obj r) \<and>
           (\<forall>c \<in> set (take (n - 1) (gcs_stages b obj r)). fault e c = None) \<and>
           gcs_buckets st' = gcs_buckets st \<and>
           gcs_objects st' =
             (if n \<le> 4 then gcs_objects st
              else (gcs_objects st)((b, obj) \<mapsto> \<lparr>content = r, public = (n = 6)\<rparr>)) \<and>
           (case res of
              Inr attrs \<Rightarrow>
                n = 6 \<and> b \<in> gcs_buckets st \<and> fault e (GcsObjectAttrs b obj) = None \<and>
                attrs = \<lparr>Bucket = b, Name = obj, MediaLink = media_link e b obj\<rparr>
            | Inl err \<Rightarrow>
                fault e (gcs_stages b obj r ! (n - 1)) = Some err \<or>
                n = 2 \<and> b \<notin> gcs_buckets st \<and> err = ErrBucketNotExist)"
    (is "\<exists>n. ?P n")
  using run
proof (cases rule: saveToGCS_cases)
  case (fail n err)
  then have "?P n" by simp
  then show ?thesis by (rule exI)
next
  case ok
  then have "?P 6" by (simp add: gcs_stages_def)
  then show ?thesis by (rule exI)
qed


theorem saveToGCS_stages_in_order_witness:
  "saveToGCS test_env ''PNG'' BUCKET_NAME ''id-1'' st0 =
     (Inr \<lparr>Bucket = BUCKET_NAME, Name = ''id-1'', MediaLink = test_link BUCKET_NAME ''id-1''\<rparr>,
      gcs_after st0 6 BUCKET_NAME ''id-1'' ''PNG'') \<and>
   new_calls st0 (gcs_after st0 6 BUCKET_NAME ''id-1'' ''PNG'') =
     [GcsNewClient, GcsBucketAttrs BUCKET_NAME, GcsCopy BUCKET_NAME ''id-1'' ''PNG'',
      GcsClose BUCKET_NAME ''id-1'', GcsACLSet BUCKET_NAME ''id-1'',
      GcsObjectAttrs BUCKET_NAME ''id-1''] \<and>
   gcs_objects (gcs_after st0 6 BUCKET_NAME ''id-1'' ''PNG'') (BUCKET_NAME, ''id-1'') =
     Some \<lparr>content = ''PNG'', public = True\<rparr>"
proof -
  have run: "saveToGCS test_env ''PNG'' BUCKET_NAME ''id-1'' st0 =
     (Inr \<lparr>Bucket = BUCKET_NAME, Name = ''id-1'', MediaLink = test_link BUCKET_NAME ''id-1''\<rparr>,
      gcs_after st0 6 BUCKET_NAME ''id-1'' ''PNG'')"
    by (simp add: saveToGCS_flat test_env_def st0_def)
  from saveToGCS_stages_in_order [OF run] obtain n where
    n: "new_calls st0 (gcs_after st0 6 BUCKET_NAME ''id-1'' ''PNG'') =
          take n (gcs_stages BUCKET_NAME ''id-1'' ''PNG'')"
      "n = 6"
      "gcs_objects (gcs_after st0 6 BUCKET_NAME ''id-1'' ''PNG'') =
         (if n \<le> 4 then gcs_objects st0
          else (gcs_objects st0)((BUCKET_NAME, ''id-1'') \<mapsto>
                 \<lparr>content = ''PNG'', public = (n = 6)\<rparr>))"
    by auto
  from n(1,2) have calls: "new_calls st0 (gcs_after st0 6 BUCKET_NAME ''id-1'' ''PNG'') =
     [GcsNewClient, GcsBucketAttrs BUCKET_NAME, GcsCopy BUCKET_NAME ''id-1'' ''PNG'',
      GcsClose BUCKET_NAME ''id-1'', GcsACLSet BUCKET_NAME ''id-1'',
      GcsObjectAttrs BUCKET_NAME ''id-1'']"
    by (simp only: gcs_stages_def) simp
  from n(2,3) have obj:
    "gcs_objects (gcs_after st0 6 BUCKET_NAME ''id-1'' ''PNG'') (BUCKET_NAME, ''id-1'') =
       Some \<lparr>content = ''PNG'', public = True\<rparr>"
    by simp
  from run calls obj show ?thesis by (intro conjI)
qed

section \<open>Asset before index\<close>

text \<open>
  C2. In every run of \<open>handlePost\<close>, a call to the index store (the index write, and the
  client creation before it) comes only after \<open>saveToGCS\<close> has returned its attributes:
  the six asset store calls precede it, the object is stored and public, and the post
  sent to the index carries the returned media link as its \<open>Url\<close> and the generated
  identifier as its id. When \<open>saveToGCS\<close> fails, \<open>handlePost\<close> answers 500, issues no
  call to the index store and leaves the index as it was.
\<close>

theorem handlePost_index_after_asset:
  assumes run: "handlePost e r st = (out, st')"
  shows "(\<forall>c \<in> set (new_calls st st'). is_es_call c \<longrightarrow>
            (\<exists>img attrs st1 rest.
               FormFile r ''image'' = Some img \<and>
               saveToGCS e img BUCKET_NAME (uuid_New e) st = (Inr attrs, st1) \<and>
               gcs_objects st1 (BUCKET_NAME, uuid_New e) =
                 Some \<lparr>content = img, public = True\<rparr> \<and>
               new_calls st st' =
                 gcs_stages BUCKET_NAME (uuid_New e) img @ EsNewClient # rest \<and>
               (\<forall>ix ty i p. c = EsIndex ix ty i p \<longrightarrow>
                  i = uuid_New e \<and> Url p = MediaLink attrs))) \<and>
         (\<forall>img err st1.
            \<not> hasFilteredWord e (FormValue r ''message'') \<longrightarrow>
            FormFile r ''image'' = Some img \<longrightarrow>
            saveToGCS e img BUCKET_NAME (uuid_New e) st = (Inl err, st1) \<longrightarrow>
              out = http_Error ''Failed to save image to GCS'' StatusInternalServerError \<and>
              st' = st1 \<and> es_docs st' = es_docs st \<and>
              (\<forall>c \<in> set (new_calls st st'). \<not> is_es_call c))"
proof (intro conjI ballI impI allI)
  fix c
  assume c: "c \<in> set (new_calls st st')" and es: "is_es_call c"
  let ?A = "\<lparr>Bucket = BUCKET_NAME, Name = uuid_New e,
             MediaLink = media_link e BUCKET_NAME (uuid_New e)\<rparr>"
  from handlePost_calls [OF run] c es
  obtain img rest where img: "FormFile r ''image'' = Some img"
    and g: "saveToGCS e img BUCKET_NAME (uuid_New e) st =
              (Inr ?A, gcs_after st 6 BUCKET_NAME (uuid_New e) img)"
    and nc: "new_calls st st' = gcs_stages BUCKET_NAME (uuid_New e) img @ EsNewClient # rest"
    and rest: "rest = [] \<or>
       (\<exists>bt. rest = EsIndex POST_INDEX POST_TYPE (uuid_New e) (indexed_post e r) # bt \<and>
             (\<forall>c \<in> set bt. is_bt_call c))"
    using take_gcs_stages_not_es by fastforce
  have idx: "i = uuid_New e \<and> Url p = MediaLink ?A" if "c = EsIndex ix ty i p" for ix ty i p
  proof -
    from c nc that have "EsIndex ix ty i p \<in> set (gcs_stages BUCKET_NAME (uuid_New e) img) \<or>
      EsIndex ix ty i p \<in> set rest" by auto
    with gcs_stages_not_es have "EsIndex ix ty i p \<in> set rest" by fastforce
    with rest show ?thesis by (force simp add: indexed_post_def)
  qed
  have obj: "gcs_objects (gcs_after st 6 BUCKET_NAME (uuid_New e) img) (BUCKET_NAME, uuid_New e) =
      Some \<lparr>content = img, public = True\<rparr>" by simp
  from img g obj nc idx
  show "\<exists>img attrs st1 rest.
               FormFile r ''image'' = Some img \<and>
               saveToGCS e img BUCKET_NAME (uuid_New e) st = (Inr attrs, st1) \<and>
               gcs_objects st1 (BUCKET_NAME, uuid_New e) =
                 Some \<lparr>content = img, public = True\<rparr> \<and>
               new_calls st st' =
                 gcs_stages BUCKET_NAME (uuid_New e) img @ EsNewClient # rest \<and>
               (\<forall>ix ty i p. c = EsIndex ix ty i p \<longrightarrow>
                  i = uuid_New e \<and> Url p = MediaLink attrs)"
    by blast
next
  fix img err st1
  assume nf: "\<not> hasFilteredWord e (FormValue r ''message'')"
    and img: "FormFile r ''image'' = Some img"
    and g: "saveToGCS e img BUCKET_NAME (uuid_New e) st = (Inl err, st1)"
  from nf img g have "handlePost e r st =
      (http_Error ''Failed to save image to GCS'' StatusInternalServerError, st1)"
    by (simp add: handlePost_def Let_def)
  with run have o: "out = http_Error ''Failed to save image to GCS'' StatusInternalServerError"
    and s: "st' = st1" by simp_all
  from g have fr: "es_docs st1 = es_docs st \<and> (\<forall>c \<in> set (new_calls st st1). \<not> is_es_call c)"
    using take_gcs_stages_not_es by (cases rule: saveToGCS_cases) auto
  from o show "out = http_Error ''Failed to save image to GCS'' StatusInternalServerError" .
  from s show "st' = st1" .
  from s fr show "es_docs st' = es_docs st" by simp
  fix c assume "c \<in> set (new_calls st st')"
  with s fr show "\<not> is_es_call c" by simp
qed

theorem handlePost_index_after_asset_witness:
  "\<exists>img attrs st1 rest.
     FormFile (post_req ''hello'' ''37.5'') ''image'' = Some img \<and>
     saveToGCS test_env img BUCKET_NAME (uuid_New test_env) st0 = (Inr attrs, st1) \<and>
     gcs_objects st1 (BUCKET_NAME, uuid_New test_env) = Some \<lparr>content = img, public = True\<rparr> \<and>
     new_calls st0 (post_stored test_env (post_req ''hello'' ''37.5'') ''PNG'' st0) =
       gcs_stages BUCKET_NAME (uuid_New test_env) img @ EsNewClient # rest \<and>
     Url (indexed_post test_env (post_req ''hello'' ''37.5'')) = MediaLink attrs"
proof -
  let ?r = "post_req ''hello'' ''37.5''"
  let ?c = "EsIndex POST_INDEX POST_TYPE (uuid_New test_env) (indexed_post test_env ?r)"
  have run: "handlePost test_env ?r st0 =
      (Response StatusOK [], post_stored test_env ?r ''PNG'' st0)"
    by (rule test_env_stored) (simp_all add: table_ParseFloat_def)
  have c: "?c \<in> set (new_calls st0 (post_stored test_env ?r ''PNG'' st0))"
    by (simp add: es_stages_def)
  have es: "is_es_call ?c" by simp
  from handlePost_index_after_asset [OF run] c es
  have "\<exists>img attrs st1 rest.
     FormFile ?r ''image'' = Some img \<and>
     saveToGCS test_env img BUCKET_NAME (uuid_New test_env) st0 = (Inr attrs, st1) \<and>
     gcs_objects st1 (BUCKET_NAME, uuid_New test_env) = Some \<lparr>content = img, public = True\<rparr> \<and>
     new_calls st0 (post_stored test_env ?r ''PNG'' st0) =
       gcs_stages BUCKET_NAME (uuid_New test_env) img @ EsNewClient # rest \<and>
     (\<forall>ix ty i p. ?c = EsIndex ix ty i p \<longrightarrow> i = uuid_New test_env \<and> Url p = MediaLink attrs)"
    by blast
  then show ?thesis by blast
qed

section \<open>One identifier for the asset and the document\<close>

text \<open>
  C9. When \<open>handlePost\<close> ends with the empty 200 response, its calls are the six asset
  store calls on the object named by the generated identifier, then the two index store
  calls with the same identifier as the document id, then at most calls to the secondary
  store. The bucket then holds the uploaded bytes under that name, the index holds the
  post under that id, and the post's \<open>Url\<close> is the media link of that object.
\<close>

theorem handlePost_one_identifier:
  assumes run: "handlePost e r st = (Response StatusOK [], st')"
  shows "\<exists>img p bt.
           FormFile r ''image'' = Some img \<and>
           new_calls st st' =
             gcs_stages BUCKET_NAME (uuid_New e) img @ es_stages (uuid_New e) p @ bt \<and>
           (\<forall>c \<in> set bt. is_bt_call c) \<and>
           gcs_objects st' (BUCKET_NAME, uuid_New e) = Some \<lparr>content = img, public = True\<rparr> \<and>
           es_docs st' (uuid_New e) = Some p \<and>
           Url p = media_link e BUCKET_NAME (uuid_New e)"
  using run
proof (cases rule: handlePost_cases)
  case (stored img)
  then have "FormFile r ''image'' = Some img \<and>
           new_calls st st' =
             gcs_stages BUCKET_NAME (uuid_New e) img @
               es_stages (uuid_New e) (indexed_post e r) @ [] \<and>
           (\<forall>c \<in> set []. is_bt_call c) \<and>
           gcs_objects st' (BUCKET_NAME, uuid_New e) = Some \<lparr>content = img, public = True\<rparr> \<and>
           es_docs st' (uuid_New e) = Some (indexed_post e r) \<and>
           Url (indexed_post e r) = media_link e BUCKET_NAME (uuid_New e)"
    by (simp add: indexed_post_def)
  then show ?thesis by blast
next
  case (mirrored img)
  then have "FormFile r ''image'' = Some img \<and>
           new_calls st st' =
             gcs_stages BUCKET_NAME (uuid_New e) img @
               es_stages (uuid_New e) (indexed_post e r) @
               bt_stages e (uuid_New e) (indexed_post e r) \<and>
           (\<forall>c \<in> set (bt_stages e (uuid_New e) (indexed_post e r)). is_bt_call c) \<and>
           gcs_objects st' (BUCKET_NAME, uuid_New e) = Some \<lparr>content = img, public = True\<rparr> \<and>
           es_docs st' (uuid_New e) = Some (indexed_post e r) \<and>
           Url (indexed_post e r) = media_link e BUCKET_NAME (uuid_New e)"
    by (simp add: indexed_post_def bt_stages_def)
  then show ?thesis by blast
qed simp_all

theorem handlePost_one_identifier_witness:
  "\<exists>img p bt.
     FormFile (post_req ''hello'' ''37.5'') ''image'' = Some img \<and>
     new_calls st0 (post_stored test_env (post_req ''hello'' ''37.5'') ''PNG'' st0) =
       gcs_stages BUCKET_NAME (uuid_New test_env) img @ es_stages (uuid_New test_env) p @ bt \<and>
     gcs_objects (post_stored test_env (post_req ''hello'' ''37.5'') ''PNG'' st0)
         (BUCKET_NAME, uuid_New test_env) = Some \<lparr>content = img, public = True\<rparr> \<and>
     es_docs (post_stored test_env (post_req ''hello'' ''37.5'') ''PNG'' st0)
         (uuid_New test_env) = Some p \<and>
     Url p = media_link test_env BUCKET_NAME (uuid_New test_env)"
proof -
  have run: "handlePost test_env (post_req ''hello'' ''37.5'') st0 =
      (Response StatusOK [], post_stored test_env (post_req ''hello'' ''37.5'') ''PNG'' st0)"
    by (rule test_env_stored) (simp_all add: table_ParseFloat_def)
  from handlePost_one_identifier [OF run] show ?thesis by blast
qed

section \<open>Coordinates are taken as parsed\<close>

text \<open>
  C3, as amended. \<open>handlePost\<close> takes the value that \<open>ParseFloat\<close> returns for \<open>lat\<close> and for
  \<open>lon\<close> and drops the error: the run is the same as in a world where \<open>ParseFloat\<close> returns
  the same values and never an error, and the post sent to the index has exactly the
  returned values as coordinates. A string that is no number, for which \<open>ParseFloat\<close>
  returns 0, is so treated as 0.0, and no request is rejected for it: \<open>handlePost\<close>
  answers 400 only for a filtered message or a missing image, and when both returned
  values are finite it accepts the post whenever the message is not filtered, the image
  is present, the bucket exists and no backend call fails. A string for which
  \<open>ParseFloat\<close> returns an infinity or NaN (a number too large for a \<open>float64\<close> comes back
  as an infinity, with a range error) is not treated as 0.0: the request then ends in a
  500 and nothing is indexed.
\<close>

theorem handlePost_tolerant_parse:
  assumes run: "handlePost e r st = (out, st')"
  shows "handlePost (e\<lparr>ParseFloat := \<lambda>s. (fst (ParseFloat e s), None)\<rparr>) r st = (out, st') \<and>
         (\<forall>ix ty i p. EsIndex ix ty i p \<in> set (new_calls st st') \<longrightarrow>
            Lat (Location p) = fst (ParseFloat e (FormValue r ''lat'')) \<and>
            Lon (Location p) = fst (ParseFloat e (FormValue r ''lon''))) \<and>
         (\<forall>body. out = Response StatusBadRequest body \<longrightarrow>
            hasFilteredWord e (FormValue r ''message'') \<or> FormFile r ''image'' = None) \<and>
         (\<not> hasFilteredWord e (FormValue r ''message'') \<and> FormFile r ''image'' \<noteq> None \<and>
          BUCKET_NAME \<in> gcs_buckets st \<and> (\<forall>c. fault e c = None) \<and>
          is_finite (fst (ParseFloat e (FormValue r ''lat''))) \<and>
          is_finite (fst (ParseFloat e (FormValue r ''lon''))) \<longrightarrow>
            out = Response StatusOK [] \<and>
            (\<exists>p. es_docs st' (uuid_New e) = Some p \<and>
                 Lat (Location p) = fst (ParseFloat e (FormValue r ''lat'')) \<and>
                 Lon (Location p) = fst (ParseFloat e (FormValue r ''lon'')))) \<and>
         (\<not> hasFilteredWord e (FormValue r ''message'') \<and> FormFile r ''image'' \<noteq> None \<and>
          (\<not> is_finite (fst (ParseFloat e (FormValue r ''lat''))) \<or>
           \<not> is_finite (fst (ParseFloat e (FormValue r ''lon'')))) \<longrightarrow>
            (\<exists>msg. out = http_Error msg StatusInternalServerError) \<and> es_docs st' = es_docs st)"
proof -
  have a: "handlePost (e\<lparr>ParseFloat := \<lambda>s. (fst (ParseFloat e s), None)\<rparr>) r st = (out, st')"
    using run by (simp add: handlePost_ParseFloat_errors)
  have b: "Lat (Location p) = fst (ParseFloat e (FormValue r ''lat'')) \<and>
           Lon (Location p) = fst (ParseFloat e (FormValue r ''lon''))"
    if "EsIndex ix ty i p \<in> set (new_calls st st')" for ix ty i p
    using handlePost_EsIndex [OF run that] by (simp add: indexed_post_def)
  have c: "hasFilteredWord e (FormValue r ''message'') \<or> FormFile r ''image'' = None"
    if "out = Response StatusBadRequest body" for body
    using run that
    by (cases rule: handlePost_cases)
       (simp_all add: http_Error_def StatusBadRequest_def StatusInternalServerError_def
          StatusOK_def)
  have d: "out = Response StatusOK [] \<and>
           (\<exists>p. es_docs st' (uuid_New e) = Some p \<and>
                 Lat (Location p) = fst (ParseFloat e (FormValue r ''lat'')) \<and>
                 Lon (Location p) = fst (ParseFloat e (FormValue r ''lon'')))"
    if h: "\<not> hasFilteredWord e (FormValue r ''message'') \<and> FormFile r ''image'' \<noteq> None \<and>
          BUCKET_NAME \<in> gcs_buckets st \<and> (\<forall>c. fault e c = None) \<and>
          is_finite (fst (ParseFloat e (FormValue r ''lat''))) \<and>
          is_finite (fst (ParseFloat e (FormValue r ''lon'')))"
  proof -
    from h obtain img where img: "FormFile r ''image'' = Some img" by auto
    from h have enc: "json_encodable (indexed_post e r)"
      by (simp add: json_encodable_def indexed_post_def)
    from h img enc have "fst (handlePost e r st) = Response StatusOK []"
      by (intro handlePost_all_ok [where img = img]) simp_all
    with run have o: "out = Response StatusOK []" by simp
    with run have "es_docs st' (uuid_New e) = Some (indexed_post e r)"
      by (cases rule: handlePost_cases) simp_all
    with o show ?thesis by (simp add: indexed_post_def)
  qed
  have f: "(\<exists>msg. out = http_Error msg StatusInternalServerError) \<and> es_docs st' = es_docs st"
    if h: "\<not> hasFilteredWord e (FormValue r ''message'') \<and> FormFile r ''image'' \<noteq> None \<and>
          (\<not> is_finite (fst (ParseFloat e (FormValue r ''lat''))) \<or>
           \<not> is_finite (fst (ParseFloat e (FormValue r ''lon''))))"
  proof -
    from h have enc: "\<not> json_encodable (indexed_post e r)"
      by (auto simp add: json_encodable_def indexed_post_def)
    from run h enc show ?thesis
      by (cases rule: handlePost_cases) auto
  qed
  from a b c d f show ?thesis by blast
qed

theorem handlePost_tolerant_parse_witness:
  "ParseFloat test_env (FormValue (post_req ''hello'' ''abc'') ''lat'') =
     (Finite 0, Some invalid_syntax) \<and>
   fst (handlePost test_env (post_req ''hello'' ''abc'') st0) = Response StatusOK [] \<and>
   (\<exists>p. es_docs (snd (handlePost test_env (post_req ''hello'' ''abc'') st0)) ''id-1'' = Some p \<and>
        Lat (Location p) = Finite 0)"
proof -
  let ?r = "post_req ''hello'' ''abc''"
  let ?run = "handlePost test_env ?r st0"
  have pf: "ParseFloat test_env (FormValue ?r ''lat'') = (Finite 0, Some invalid_syntax)"
    by (simp add: table_ParseFloat_def)
  have run: "?run = (fst ?run, snd ?run)" by simp
  have h: "\<not> hasFilteredWord test_env (FormValue ?r ''message'') \<and>
      FormFile ?r ''image'' \<noteq> None \<and> BUCKET_NAME \<in> gcs_buckets st0 \<and>
      (\<forall>c. fault test_env c = None) \<and>
      is_finite (fst (ParseFloat test_env (FormValue ?r ''lat''))) \<and>
      is_finite (fst (ParseFloat test_env (FormValue ?r ''lon'')))"
    by (simp add: st0_def table_ParseFloat_def)
  from handlePost_tolerant_parse [OF run] h
  have "fst ?run = Response StatusOK [] \<and>
        (\<exists>p. es_docs (snd ?run) (uuid_New test_env) = Some p \<and>
             Lat (Location p) = fst (ParseFloat test_env (FormValue ?r ''lat'')))"
    by blast
  with pf show ?thesis by simp
qed

theorem handlePost_tolerant_parse_counterexample:
  "ParseFloat test_env (FormValue (post_req ''hello'' ''1e999'') ''lat'') =
     (PosInf, Some out_of_range) \<and>
   PosInf \<noteq> Finite 0 \<and>
   fst (handlePost test_env (post_req ''hello'' ''1e999'') st0) =
     Response StatusInternalServerError
       (''Failed to save post to ElasticSearch'' @ [CHR 0x0A]) \<and>
   gcs_objects (snd (handlePost test_env (post_req ''hello'' ''1e999'') st0))
     (BUCKET_NAME, ''id-1'') = Some \<lparr>content = ''PNG'', public = True\<rparr> \<and>
   es_docs (snd (handlePost test_env (post_req ''hello'' ''1e999'') st0)) ''id-1'' = None"
  by (simp add: handlePost_def Let_def saveToGCS_flat saveToES_flat http_Error_def
      json_encodable_def table_ParseFloat_def st0_def)

section \<open>No range check on coordinates\<close>

text \<open>
  C8, as amended. For every post that \<open>handlePost\<close> accepts, the location written to the
  index is exactly the pair of values that \<open>ParseFloat\<close> returned for \<open>lat\<close> and \<open>lon\<close>,
  and both are finite numbers. \<open>handlePost\<close> itself makes no check of the degree
  ranges: with finite values, a post is accepted whenever the message is not filtered,
  the image is present, the bucket exists and no backend call fails. So \<open>lat = 100\<close> is
  stored as it is when the index accepts it, and the claim as stated fails there.
\<close>

theorem handlePost_location_as_parsed:
  "(handlePost e r st = (Response StatusOK [], st') \<longrightarrow>
      (\<exists>p. es_docs st' (uuid_New e) = Some p \<and>
           Location p = \<lparr>Lat = fst (ParseFloat e (FormValue r ''lat'')),
                         Lon = fst (ParseFloat e (FormValue r ''lon''))\<rparr> \<and>
           is_finite (Lat (Location p)) \<and> is_finite (Lon (Location p)))) \<and>
   (\<not> hasFilteredWord e (FormValue r ''message'') \<and> FormFile r ''image'' \<noteq> None \<and>
    BUCKET_NAME \<in> gcs_buckets st \<and> (\<forall>c. fault e c = None) \<and>
    is_finite (fst (ParseFloat e (FormValue r ''lat''))) \<and>
    is_finite (fst (ParseFloat e (FormValue r ''lon''))) \<longrightarrow>
      fst (handlePost e r st) = Response StatusOK [])"
proof (intro conjI impI)
  assume run: "handlePost e r st = (Response StatusOK [], st')"
  then have "es_docs st' (uuid_New e) = Some (indexed_post e r) \<and>
      json_encodable (indexed_post e r)"
    by (cases rule: handlePost_cases) simp_all
  then show "\<exists>p. es_docs st' (uuid_New e) = Some p \<and>
           Location p = \<lparr>Lat = fst (ParseFloat e (FormValue r ''lat'')),
                         Lon = fst (ParseFloat e (FormValue r ''lon''))\<rparr> \<and>
           is_finite (Lat (Location p)) \<and> is_finite (Lon (Location p))"
    by (simp add: indexed_post_def json_encodable_def)
next
  assume h: "\<not> hasFilteredWord e (FormValue r ''message'') \<and> FormFile r ''image'' \<noteq> None \<and>
    BUCKET_NAME \<in> gcs_buckets st \<and> (\<forall>c. fault e c = None) \<and>
    is_finite (fst (ParseFloat e (FormValue r ''lat''))) \<and>
    is_finite (fst (ParseFloat e (FormValue r ''lon'')))"
  then obtain img where img: "FormFile r ''image'' = Some img" by auto
  from h have enc: "json_encodable (indexed_post e r)"
    by (simp add: json_encodable_def indexed_post_def)
  from h img enc show "fst (handlePost e r st) = Response StatusOK []"
    by (intro handlePost_all_ok [where img = img]) simp_all
qed

theorem handlePost_location_as_parsed_witness:
  "fst (handlePost test_env (post_req ''hello'' ''100'') st0) = Response StatusOK [] \<and>
   (\<exists>p. es_docs (snd (handlePost test_env (post_req ''hello'' ''100'') st0)) ''id-1'' = Some p \<and>
        Location p = \<lparr>Lat = Finite 100, Lon = Finite (- 122.5)\<rparr> \<and>
        is_finite (Lat (Location p)) \<and> is_finite (Lon (Location p)))"
proof -
  let ?r = "post_req ''hello'' ''100''"
  let ?run = "handlePost test_env ?r st0"
  have h: "\<not> hasFilteredWord test_env (FormValue ?r ''message'') \<and>
      FormFile ?r ''image'' \<noteq> None \<and> BUCKET_NAME \<in> gcs_buckets st0 \<and>
      (\<forall>c. fault test_env c = None) \<and>
      is_finite (fst (ParseFloat test_env (FormValue ?r ''lat''))) \<and>
      is_finite (fst (ParseFloat test_env (FormValue ?r ''lon'')))"
    by (simp add: st0_def table_ParseFloat_def)
  from handlePost_location_as_parsed [of test_env ?r st0] h
  have ok: "fst ?run = Response StatusOK []" by blast
  then have run: "?run = (Response StatusOK [], snd ?run)" by (simp add: prod_eq_iff)
  from handlePost_location_as_parsed [of test_env ?r st0 "snd ?run"] run
  have "\<exists>p. es_docs (snd ?run) (uuid_New test_env) = Some p \<and>
           Location p = \<lparr>Lat = fst (ParseFloat test_env (FormValue ?r ''lat'')),
                         Lon = fst (ParseFloat test_env (FormValue ?r ''lon''))\<rparr> \<and>
           is_finite (Lat (Location p)) \<and> is_finite (Lon (Location p))"
    by blast
  then have "\<exists>p. es_docs (snd ?run) ''id-1'' = Some p \<and>
        Location p = \<lparr>Lat = Finite 100, Lon = Finite (- 122.5)\<rparr> \<and>
        is_finite (Lat (Location p)) \<and> is_finite (Lon (Location p))"
    by (simp add: table_ParseFloat_def)
  with ok show ?thesis by (intro conjI)
qed

theorem handlePost_out_of_range_counterexample:
  "fst (handlePost test_env (post_req ''hello'' ''100'') st0) = Response StatusOK [] \<and>
   es_docs (snd (handlePost test_env (post_req ''hello'' ''100'') st0)) ''id-1'' =
     Some \<lparr>User = ''alice'', Message = ''hello'',
           Location = \<lparr>Lat = Finite 100, Lon = Finite (- 122.5)\<rparr>,
           Url = test_link BUCKET_NAME ''id-1''\<rparr> \<and>
   \<not> f64_le (Finite 100) (Finite 90)"
proof -
  have run: "handlePost test_env (post_req ''hello'' ''100'') st0 =
      (Response StatusOK [], post_stored test_env (post_req ''hello'' ''100'') ''PNG'' st0)"
    by (rule test_env_stored) (simp_all add: table_ParseFloat_def)
  show ?thesis
    by (simp add: run indexed_post_def table_ParseFloat_def)
qed

section \<open>A failing mirror write\<close>

text \<open>
  C5, as amended. \<open>saveToBigTable\<close> runs inside \<open>handlePost\<close>, after steps 1 to 6 have
  succeeded, and only when \<open>ENABLE_BIGTABLE\<close> is set; its failure is a panic that leaves
  \<open>handlePost\<close>. Compare a run with the run in the world where the calls to the secondary
  store succeed (\<open>mirror_ok\<close>). The bucket, the stored objects and the index are the same
  in both: the mirror write never changes what steps 1 to 6 did. When the store is
  enabled and the other run answers 200, the post is indexed and the outcome is the
  panic with the error of the first failing call to the secondary store, and 200 when
  neither call fails. When the other run does not answer 200, or \<open>ENABLE_BIGTABLE\<close> is
  false as the source has it, the two runs are equal, and with the store disabled no
  call to it is issued.
\<close>

theorem handlePost_mirror_failure:
  assumes run: "handlePost e r st = (out, st')"
    and run_ok: "handlePost (mirror_ok e) r st = (out', st'')"
  shows "gcs_buckets st' = gcs_buckets st'' \<and> gcs_objects st' = gcs_objects st'' \<and>
         es_docs st' = es_docs st'' \<and>
         (ENABLE_BIGTABLE e \<and> out' = Response StatusOK [] \<longrightarrow>
            es_docs st' (uuid_New e) = Some (indexed_post e r) \<and>
            out =
              (case fault e BtNewClient of
                 Some err \<Rightarrow> Panic err
               | None \<Rightarrow>
                   (case fault e (BtApply ''post'' (uuid_New e)
                                    (bt_mutation e (indexed_post e r))) of
                      Some err \<Rightarrow> Panic err
                    | None \<Rightarrow> Response StatusOK []))) \<and>
         (out' \<noteq> Response StatusOK [] \<longrightarrow> out = out' \<and> st' = st'') \<and>
         (\<not> ENABLE_BIGTABLE e \<longrightarrow>
            out = out' \<and> st' = st'' \<and> (\<forall>c \<in> set (new_calls st st'). \<not> is_bt_call c))"
  using run
proof (cases rule: handlePost_cases)
  case spam
  with run_ok show ?thesis by (cases rule: handlePost_cases) simp_all
next
  case no_image
  with run_ok show ?thesis by (cases rule: handlePost_cases) simp_all
next
  case (gcs_failed img n err)
  with run_ok show ?thesis
    using take_gcs_stages_not_es
    by (cases rule: handlePost_cases) (auto simp add: es_stages_def bt_stages_def)
next
  case (es_client_failed img err)
  with run_ok show ?thesis
    using gcs_stages_not_es
    by (cases rule: handlePost_cases) (auto simp add: es_stages_def bt_stages_def)
next
  case (es_encode_failed img)
  with run_ok show ?thesis
    using gcs_stages_not_es
    by (cases rule: handlePost_cases) (auto simp add: es_stages_def bt_stages_def)
next
  case (es_index_failed img err)
  with run_ok show ?thesis
    using gcs_stages_not_es
    by (cases rule: handlePost_cases) (auto simp add: es_stages_def bt_stages_def)
next
  case (stored img)
  with run_ok show ?thesis
    using gcs_stages_not_es
    by (cases rule: handlePost_cases) (auto simp add: es_stages_def bt_stages_def)
next
  case (bt_client_failed img err)
  with run_ok show ?thesis
    by (cases rule: handlePost_cases) (auto simp add: es_stages_def bt_stages_def)
next
  case (bt_apply_failed img err)
  with run_ok show ?thesis
    by (cases rule: handlePost_cases) (auto simp add: es_stages_def bt_stages_def)
next
  case (mirrored img)
  with run_ok show ?thesis
    by (cases rule: handlePost_cases) (auto simp add: es_stages_def bt_stages_def)
qed

theorem handlePost_mirror_failure_witness:
  "ENABLE_BIGTABLE bt_down_env \<and>
   fst (handlePost (mirror_ok bt_down_env) (post_req ''hello'' ''37.5'') st0) =
     Response StatusOK [] \<and>
   fst (handlePost bt_down_env (post_req ''hello'' ''37.5'') st0) = Panic bt_down \<and>
   gcs_objects (snd (handlePost bt_down_env (post_req ''hello'' ''37.5'') st0)) =
     gcs_objects (snd (handlePost (mirror_ok bt_down_env) (post_req ''hello'' ''37.5'') st0)) \<and>
   es_docs (snd (handlePost bt_down_env (post_req ''hello'' ''37.5'') st0)) =
     es_docs (snd (handlePost (mirror_ok bt_down_env) (post_req ''hello'' ''37.5'') st0)) \<and>
   es_docs (snd (handlePost bt_down_env (post_req ''hello'' ''37.5'') st0))
     (uuid_New bt_down_env) = Some (indexed_post bt_down_env (post_req ''hello'' ''37.5'')) \<and>
   \<not> ENABLE_BIGTABLE test_env \<and>
   handlePost test_env (post_req ''hello'' ''37.5'') st0 =
     handlePost (mirror_ok test_env) (post_req ''hello'' ''37.5'') st0"
proof -
  let ?r = "post_req ''hello'' ''37.5''"
  have run: "handlePost bt_down_env ?r st0 =
      (fst (handlePost bt_down_env ?r st0), snd (handlePost bt_down_env ?r st0))"
    by simp
  have run_ok: "handlePost (mirror_ok bt_down_env) ?r st0 =
      (fst (handlePost (mirror_ok bt_down_env) ?r st0),
       snd (handlePost (mirror_ok bt_down_env) ?r st0))"
    by simp
  have en: "ENABLE_BIGTABLE bt_down_env" by (simp add: bt_down_env_def)
  have ok: "fst (handlePost (mirror_ok bt_down_env) ?r st0) = Response StatusOK []"
    by (rule handlePost_all_ok [where img = "''PNG''"])
       (simp_all add: bt_down_env_def st0_def json_encodable_def indexed_post_def
          table_ParseFloat_def)
  have ft: "fault bt_down_env BtNewClient = Some bt_down" by (simp add: bt_down_env_def)
  from handlePost_mirror_failure [OF run run_ok] en ok
  have "fst (handlePost bt_down_env ?r st0) =
      (case fault bt_down_env BtNewClient of
         Some err \<Rightarrow> Panic err
       | None \<Rightarrow>
           (case fault bt_down_env (BtApply ''post'' (uuid_New bt_down_env)
                            (bt_mutation bt_down_env (indexed_post bt_down_env ?r))) of
              Some err \<Rightarrow> Panic err
            | None \<Rightarrow> Response StatusOK []))"
    by blast
  with ft have p: "fst (handlePost bt_down_env ?r st0) = Panic bt_down" by simp
  from handlePost_mirror_failure [OF run run_ok] en ok
  have down: "gcs_objects (snd (handlePost bt_down_env ?r st0)) =
     gcs_objects (snd (handlePost (mirror_ok bt_down_env) ?r st0)) \<and>
   es_docs (snd (handlePost bt_down_env ?r st0)) =
     es_docs (snd (handlePost (mirror_ok bt_down_env) ?r st0)) \<and>
   es_docs (snd (handlePost bt_down_env ?r st0))
     (uuid_New bt_down_env) = Some (indexed_post bt_down_env ?r)"
    by blast
  have off: "\<not> ENABLE_BIGTABLE test_env" by simp
  have run2: "handlePost test_env ?r st0 =
      (fst (handlePost test_env ?r st0), snd (handlePost test_env ?r st0))"
    by simp
  have run_ok2: "handlePost (mirror_ok test_env) ?r st0 =
      (fst (handlePost (mirror_ok test_env) ?r st0),
       snd (handlePost (mirror_ok test_env) ?r st0))"
    by simp
  from handlePost_mirror_failure [OF run2 run_ok2] off
  have "fst (handlePost test_env ?r st0) = fst (handlePost (mirror_ok test_env) ?r st0) \<and>
        snd (handlePost test_env ?r st0) = snd (handlePost (mirror_ok test_env) ?r st0)"
    by blast
  then have same: "handlePost test_env ?r st0 = handlePost (mirror_ok test_env) ?r st0"
    by (simp add: prod_eq_iff)
  from en ok p down off same show ?thesis by blast
qed

theorem handlePost_mirror_failure_counterexample:
  "ENABLE_BIGTABLE bt_down_env \<and>
   fst (handlePost bt_down_env (post_req ''hello'' ''37.5'') st0) = Panic bt_down \<and>
   fst (handlePost (mirror_ok bt_down_env) (post_req ''hello'' ''37.5'') st0) =
     Response StatusOK []"
proof -
  let ?r = "post_req ''hello'' ''37.5''"
  have en: "ENABLE_BIGTABLE bt_down_env" by (simp add: bt_down_env_def)
  have p: "fst (handlePost bt_down_env ?r st0) = Panic bt_down"
    by (simp add: handlePost_def Let_def saveToGCS_flat saveToES_flat saveToBigTable_flat
        bt_down_env_def st0_def json_encodable_def table_ParseFloat_def)
  have ok: "fst (handlePost (mirror_ok bt_down_env) ?r st0) = Response StatusOK []"
    by (rule handlePost_all_ok [where img = "''PNG''"])
       (simp_all add: bt_down_env_def st0_def json_encodable_def indexed_post_def
          table_ParseFloat_def)
  from en p ok show ?thesis by (intro conjI)
qed

section \<open>The spam filter on search results\<close>

text \<open>
  C4. When the two calls to the index store succeed, \<open>readFromES\<close> returns, without an
  error, the posts of the hits in the order of the hits, keeping a post if and only if
  \<open>hasFilteredWord\<close> does not match its message: a hit with a matching message is not in
  the list, and nothing else in the result speaks of it. The index itself is not
  changed by the search. In any run, a list that is returned is this list.
\<close>

theorem readFromES_refilters:
  assumes run: "readFromES e lat lon rang st = (res, st')"
  shows "es_docs st' = es_docs st \<and>
         (fault e EsNewClient = None \<and> fault e (EsSearch POST_INDEX lat lon rang) = None \<longrightarrow>
            res = Inr [p \<leftarrow> posts_of (Each (search_hits e lat lon rang)).
                         \<not> hasFilteredWord e (Message p)]) \<and>
         (\<forall>posts. res = Inr posts \<longrightarrow>
            posts = [p \<leftarrow> posts_of (Each (search_hits e lat lon rang)).
                       \<not> hasFilteredWord e (Message p)] \<and>
            (\<forall>p. Decodable p \<in> set (search_hits e lat lon rang) \<longrightarrow>
                 (p \<in> set posts \<longleftrightarrow> \<not> hasFilteredWord e (Message p))))"
proof -
  have fr: "es_docs st' = es_docs st"
    using run by (auto simp add: readFromES_flat split: option.splits)
  have eq: "posts = [p \<leftarrow> posts_of (Each (search_hits e lat lon rang)).
                       \<not> hasFilteredWord e (Message p)]" if "res = Inr posts" for posts
    using run that by (auto simp add: readFromES_flat collect_filter split: option.splits)
  have ok: "res = Inr [p \<leftarrow> posts_of (Each (search_hits e lat lon rang)).
                         \<not> hasFilteredWord e (Message p)]"
    if "fault e EsNewClient = None \<and> fault e (EsSearch POST_INDEX lat lon rang) = None"
    using run that by (simp add: readFromES_flat collect_filter)
  have mem: "p \<in> set posts \<longleftrightarrow> \<not> hasFilteredWord e (Message p)"
    if "res = Inr posts" "Decodable p \<in> set (search_hits e lat lon rang)" for posts p
    using eq [OF that(1)] posts_of_Each_Decodable [OF that(2)] by simp
  from fr eq ok mem show ?thesis by blast
qed

theorem readFromES_refilters_witness:
  "fst (readFromES hits_env (Finite 37.5) (Finite (- 122.5)) ''200km'' st0) =
     Inr [test_post ''hello'', zero_Post] \<and>
   Decodable (test_post ''spam'') \<in>
     set (search_hits hits_env (Finite 37.5) (Finite (- 122.5)) ''200km'') \<and>
   test_post ''spam'' \<notin> set [test_post ''hello'', zero_Post] \<and>
   es_docs (snd (readFromES hits_env (Finite 37.5) (Finite (- 122.5)) ''200km'' st0)) =
     es_docs st0"
proof -
  let ?run = "readFromES hits_env (Finite 37.5) (Finite (- 122.5)) ''200km'' st0"
  have run: "?run = (fst ?run, snd ?run)" by simp
  have f: "fault hits_env EsNewClient = None \<and>
      fault hits_env (EsSearch POST_INDEX (Finite 37.5) (Finite (- 122.5)) ''200km'') = None"
    by simp
  from readFromES_refilters [OF run] f
  have res: "fst ?run = Inr [p \<leftarrow> posts_of (Each (search_hits hits_env (Finite 37.5)
      (Finite (- 122.5)) ''200km'')). \<not> hasFilteredWord hits_env (Message p)]"
    and fr: "es_docs (snd ?run) = es_docs st0"
    by blast+
  from res have r: "fst ?run = Inr [test_post ''hello'', zero_Post]" by simp
  have h: "Decodable (test_post ''spam'') \<in>
     set (search_hits hits_env (Finite 37.5) (Finite (- 122.5)) ''200km'')" by simp
  from readFromES_refilters [OF run] r h
  have "test_post ''spam'' \<in> set [test_post ''hello'', zero_Post] \<longleftrightarrow>
      \<not> hasFilteredWord hits_env (Message (test_post ''spam''))"
    by blast
  then have n: "test_post ''spam'' \<notin> set [test_post ''hello'', zero_Post]" by simp
  from r h n fr show ?thesis by (intro conjI)
qed

section \<open>Hits that do not unmarshal\<close>

text \<open>
  C10. \<open>readFromES\<close> returns an error only when one of its two calls to the index store
  failed, and then that call's error: no hit makes it fail. When both calls succeed the
  result is a list, the same list as if the hits that do not unmarshal had not been
  returned; and when every hit either does not unmarshal or has a filtered message, the
  list is empty (the nil slice).
\<close>

theorem readFromES_skips_undecodable:
  assumes run: "readFromES e lat lon rang st = (res, st')"
  shows "(\<forall>err. res = Inl err \<longrightarrow>
            fault e EsNewClient = Some err \<or>
            fault e (EsSearch POST_INDEX lat lon rang) = Some err) \<and>
         (fault e EsNewClient = None \<and> fault e (EsSearch POST_INDEX lat lon rang) = None \<longrightarrow>
            res = Inr (collect e (Each [h \<leftarrow> search_hits e lat lon rang. h \<noteq> Undecodable]) []) \<and>
            ((\<forall>h \<in> set (search_hits e lat lon rang).
                h = Undecodable \<or> (\<exists>p. h = Decodable p \<and> hasFilteredWord e (Message p))) \<longrightarrow>
             res = Inr []))"
proof (intro conjI allI impI)
  fix err assume "res = Inl err"
  with run show "fault e EsNewClient = Some err \<or>
            fault e (EsSearch POST_INDEX lat lon rang) = Some err"
    by (auto simp add: readFromES_flat split: option.splits)
next
  assume ok: "fault e EsNewClient = None \<and> fault e (EsSearch POST_INDEX lat lon rang) = None"
  with run have res: "res = Inr (collect e (Each (search_hits e lat lon rang)) [])"
    by (simp add: readFromES_flat)
  then show "res = Inr (collect e (Each [h \<leftarrow> search_hits e lat lon rang. h \<noteq> Undecodable]) [])"
    by (simp add: Each_drop_Undecodable)
  assume "\<forall>h \<in> set (search_hits e lat lon rang).
                h = Undecodable \<or> (\<exists>p. h = Decodable p \<and> hasFilteredWord e (Message p))"
  then have "[p \<leftarrow> posts_of (Each (search_hits e lat lon rang)).
      \<not> hasFilteredWord e (Message p)] = []"
    by (rule posts_of_Each_none)
  with res show "res = Inr []" by (simp add: collect_filter)
qed

theorem readFromES_skips_undecodable_witness:
  "search_hits junk_env (Finite 37.5) (Finite (- 122.5)) ''200km'' =
     [Undecodable, Decodable (test_post ''spam''), Undecodable] \<and>
   hasFilteredWord junk_env (Message (test_post ''spam'')) \<and>
   fst (readFromES junk_env (Finite 37.5) (Finite (- 122.5)) ''200km'' st0) = Inr []"
proof -
  let ?run = "readFromES junk_env (Finite 37.5) (Finite (- 122.5)) ''200km'' st0"
  have run: "?run = (fst ?run, snd ?run)" by simp
  have f: "fault junk_env EsNewClient = None \<and>
      fault junk_env (EsSearch POST_INDEX (Finite 37.5) (Finite (- 122.5)) ''200km'') = None"
    by simp
  have h: "\<forall>h \<in> set (search_hits junk_env (Finite 37.5) (Finite (- 122.5)) ''200km'').
      h = Undecodable \<or> (\<exists>p. h = Decodable p \<and> hasFilteredWord junk_env (Message p))"
    by simp
  from readFromES_skips_undecodable [OF run] f h
  have "fst ?run = Inr []" by blast
  then show ?thesis by simp
qed

section \<open>The radius of a search\<close>

text \<open>
  C6, as amended. \<open>handleSearch\<close> creates the index client and, when that succeeds,
  sends one geo-distance query. Its radius is the default \<open>200km\<close> when the \<open>range\<close>
  parameter is empty or absent, and otherwise the parameter followed by \<open>km\<close>: the
  caller gives the bare number of kilometres. So \<open>0\<close> is sent as \<open>0km\<close>, and the
  string \<open>0km\<close> is sent as \<open>0kmkm\<close>, not as zero kilometres.
\<close>

theorem handleSearch_radius:
  "new_calls st (snd (handleSearch e r st)) =
     EsNewClient #
       (if fault e EsNewClient = None
        then [EsSearch POST_INDEX (fst (ParseFloat e (Query_Get r ''lat'')))
                (fst (ParseFloat e (Query_Get r ''lon'')))
                (if Query_Get r ''range'' = [] then ''200km''
                 else Query_Get r ''range'' @ ''km'')]
        else []) \<and>
   (map_of (query r) ''range'' = None \<longrightarrow> Query_Get r ''range'' = [])"
  by (simp add: handleSearch_calls DISTANCE_def Query_Get_def)

theorem handleSearch_radius_witness:
  "map_of (query \<lparr>query = [], post_form = [], multipart_form = [], files = []\<rparr>) ''range'' = None \<and>
   new_calls st0 (snd (handleSearch test_env \<lparr>query = [], post_form = [], multipart_form = [], files = []\<rparr> st0)) =
     [EsNewClient, EsSearch POST_INDEX (Finite 0) (Finite 0) ''200km''] \<and>
   new_calls st0 (snd (handleSearch test_env (search_req ''0'') st0)) =
     [EsNewClient, EsSearch POST_INDEX (Finite 37.5) (Finite (- 122.5)) ''0km'']"
proof -
  let ?r = "\<lparr>query = [], post_form = [], multipart_form = [], files = []\<rparr> :: Request"
  have a: "map_of (query ?r) ''range'' = None" by simp
  with handleSearch_radius [of st0 test_env ?r]
  have e: "Query_Get ?r ''range'' = []" by blast
  have q: "Query_Get ?r ''lat'' = []" "Query_Get ?r ''lon'' = []"
    by (simp_all add: Query_Get_def)
  from handleSearch_radius [of st0 test_env ?r] e q
  have b: "new_calls st0 (snd (handleSearch test_env ?r st0)) =
     [EsNewClient, EsSearch POST_INDEX (Finite 0) (Finite 0) ''200km'']"
    by (simp add: table_ParseFloat_def)
  from handleSearch_radius [of st0 test_env "search_req ''0''"]
  have c: "new_calls st0 (snd (handleSearch test_env (search_req ''0'') st0)) =
     [EsNewClient, EsSearch POST_INDEX (Finite 37.5) (Finite (- 122.5)) ''0km'']"
    by (simp add: table_ParseFloat_def)
  from a b c show ?thesis by (intro conjI)
qed

theorem handleSearch_radius_counterexample:
  "new_calls st0 (snd (handleSearch test_env (search_req ''0km'') st0)) =
     [EsNewClient, EsSearch POST_INDEX (Finite 37.5) (Finite (- 122.5)) ''0kmkm''] \<and>
   ''0kmkm'' \<noteq> ''0km''"
  by (simp add: handleSearch_calls table_ParseFloat_def)

end
